theory Spec2Isabelle
  imports Complex_Main "HOL-Library.Word"
begin

unbundle bit_operations_syntax

section \<open>Machine types and constants of llgamecontrol.cpp\<close>

type_synonym U8 = "8 word"
type_synonym S16 = "16 word"
type_synonym S32 = "32 word"
type_synonym U32 = "32 word"
type_synonym U64 = "64 word"

definition NUM_AXES :: nat where
  "NUM_AXES = 6"

definition NUM_BUTTONS :: nat where
  "NUM_BUTTONS = 32"

definition MAX_AXIS :: U8 where
  "MAX_AXIS = 5"

definition MAX_BUTTON :: U8 where
  "MAX_BUTTON = 31"

text \<open>
  The axis indices. \<open>LLGameControl::AXIS_*\<close> are declared in the header; their order is the
  one \<open>InputChannel::getRemoteName\<close> switches on (0 LEFTX, 1 LEFTY, 2 RIGHTX, 3 RIGHTY,
  4 trigger left, 5 trigger right), which is also SDL's \<open>SDL_CONTROLLER_AXIS_*\<close> order.
\<close>

definition AXIS_LEFTX :: U8 where "AXIS_LEFTX = 0"
definition AXIS_LEFTY :: U8 where "AXIS_LEFTY = 1"
definition AXIS_RIGHTX :: U8 where "AXIS_RIGHTX = 2"
definition AXIS_RIGHTY :: U8 where "AXIS_RIGHTY = 3"
definition AXIS_TRIGGERLEFT :: U8 where "AXIS_TRIGGERLEFT = 4"
definition AXIS_TRIGGERRIGHT :: U8 where "AXIS_TRIGGERRIGHT = 5"

definition SDL_CONTROLLER_AXIS_TRIGGERLEFT :: U8 where
  "SDL_CONTROLLER_AXIS_TRIGGERLEFT = 4"

section \<open>Agent control mode (de)serialisation\<close>

datatype AgentControlMode = CONTROL_MODE_AVATAR | CONTROL_MODE_FLYCAM | CONTROL_MODE_NONE

definition ENUM_AGENTCONTROLMODE_FLYCAM :: string where
  "ENUM_AGENTCONTROLMODE_FLYCAM = ''flycam''"

definition ENUM_AGENTCONTROLMODE_NONE :: string where
  "ENUM_AGENTCONTROLMODE_NONE = ''none''"

definition convertStringToAgentControlMode :: "string \<Rightarrow> AgentControlMode" where
  "convertStringToAgentControlMode mode =
     (if mode = ENUM_AGENTCONTROLMODE_NONE then CONTROL_MODE_NONE
      else if mode = ENUM_AGENTCONTROLMODE_FLYCAM then CONTROL_MODE_FLYCAM
      else CONTROL_MODE_AVATAR)"

text \<open>\<open>LLStringUtil::null\<close> is the empty string.\<close>

definition convertAgentControlModeToString :: "AgentControlMode \<Rightarrow> string" where
  "convertAgentControlModeToString mode =
     (if mode = CONTROL_MODE_NONE then ENUM_AGENTCONTROLMODE_NONE
      else if mode = CONTROL_MODE_FLYCAM then ENUM_AGENTCONTROLMODE_FLYCAM
      else [])"

section \<open>Device state and axis events\<close>

text \<open>
  \<open>LLGameControl::State\<close>: the joystick id, the axes and previous axes (vectors of S16
  resized to \<open>NUM_AXES\<close> by the constructor) and the button mask. The opaque controller
  handle is never read by the functions modelled here and is left out; the initial
  joystick id is set in the header and is 0 here.
\<close>

record State =
  mJoystickID :: int
  mAxes :: "S16 list"
  mPrevAxes :: "S16 list"
  mButtons :: U32

definition State_init :: State where
  "State_init = \<lparr> mJoystickID = 0, mAxes = replicate NUM_AXES 0,
                  mPrevAxes = replicate NUM_AXES 0, mButtons = 0 \<rparr>"

text \<open>
  The negation inside \<open>onAxis\<close>. The operands are promoted to \<open>int\<close>, so the arithmetic is
  on integers, and the result is converted back to S16 by the assignment.
\<close>

definition negate_axis_value :: "S16 \<Rightarrow> S16" where
  "negate_axis_value v =
     (if sint v < 0 then word_of_int (- (sint v + 1))
      else if sint v > 0 then word_of_int ((- sint v) - 1)
      else v)"

fun findState :: "int \<Rightarrow> State list \<Rightarrow> nat option" where
  "findState ident [] = None"
| "findState ident (s # ss) =
     (if mJoystickID s = ident then Some 0
      else map_option Suc (findState ident ss))"

definition onAxis :: "int \<Rightarrow> U8 \<Rightarrow> S16 \<Rightarrow> State list \<Rightarrow> State list" where
  "onAxis ident axis v states =
     (if axis > MAX_AXIS then states
      else case findState ident states of
        None \<Rightarrow> states
      | Some k \<Rightarrow>
          (let v' = (if axis < SDL_CONTROLLER_AXIS_TRIGGERLEFT then negate_axis_value v else v);
               st = states ! k
           in states[k := st\<lparr>mAxes := (mAxes st)[unat axis := v']\<rparr>]))"

section \<open>Merged final state and the resend period\<close>

definition MSEC_PER_NSEC :: U64 where
  "MSEC_PER_NSEC = 1000000"

definition FIRST_RESEND_PERIOD :: U64 where
  "FIRST_RESEND_PERIOD = 100 * MSEC_PER_NSEC"

definition RESEND_EXPANSION_RATE :: U64 where
  "RESEND_EXPANSION_RATE = 10"

text \<open>
  The part of the manager and of the file's globals that the merge and the resend
  scheduler read and write.
\<close>

record World =
  mExternalState :: State
  mAxesAccumulator :: "S32 list"
  mButtonAccumulator :: U32
  g_finalState :: State
  g_lastSend :: U64
  g_nextResendPeriod :: U64
  g_sendToServer :: bool
  g_translateAgentActions :: bool

definition wf_World :: "World \<Rightarrow> bool" where
  "wf_World w \<longleftrightarrow>
     length (mAxesAccumulator w) = NUM_AXES \<and>
     length (mAxes (mExternalState w)) = NUM_AXES \<and>
     length (mAxes (g_finalState w)) = NUM_AXES \<and>
     length (mPrevAxes (g_finalState w)) = NUM_AXES"

text \<open>
  The body of the axis loop of \<open>computeFinalState\<close>, split into the sum
  (\<open>axis += (S32)mExternalState.mAxes[i]\<close>, in S32), the clamp
  (\<open>(S16)std::min(std::max(axis, -32768), 32767)\<close>, stored back into the S32 local) and
  the test and update for one index. The vectors all have \<open>NUM_AXES\<close> elements
  (\<open>wf_World\<close>); the model says nothing about other lengths.
\<close>

definition summed_axis :: "World \<Rightarrow> nat \<Rightarrow> S32" where
  "summed_axis w i =
     (let axis = mAxesAccumulator w ! i
      in if g_translateAgentActions w
         then axis + scast (mAxes (mExternalState w) ! i)
         else axis)"

definition clamp_axis :: "S32 \<Rightarrow> S32" where
  "clamp_axis axis =
     scast (scast (word_of_int (min (max (sint axis) (- 32768)) 32767) :: S32) :: S16)"

definition computeFinalState_buttons :: "World \<Rightarrow> World" where
  "computeFinalState_buttons w =
     (let old_buttons = mButtons (g_finalState w);
          b = (if g_translateAgentActions w
               then mButtonAccumulator w OR mButtons (mExternalState w)
               else mButtonAccumulator w);
          w' = w\<lparr>g_finalState := (g_finalState w)\<lparr>mButtons := b\<rparr>\<rparr>
      in if old_buttons \<noteq> b then w'\<lparr>g_nextResendPeriod := 0\<rparr> else w')"

definition computeFinalState_axis :: "nat \<Rightarrow> World \<Rightarrow> World" where
  "computeFinalState_axis i w =
     (let axis = clamp_axis (summed_axis w i);
          fs = g_finalState w
      in if scast (mAxes fs ! i) \<noteq> axis
         then w\<lparr>g_finalState :=
                   fs\<lparr>mPrevAxes := (mPrevAxes fs)[i := mAxes fs ! i],
                      mAxes := (mAxes fs)[i := ucast axis]\<rparr>,
                 g_nextResendPeriod := 0\<rparr>
         else w)"

definition computeFinalState :: "World \<Rightarrow> World" where
  "computeFinalState w =
     fold computeFinalState_axis [0..<NUM_AXES] (computeFinalState_buttons w)"

text \<open>\<open>get_now_nsec()\<close> is passed in as \<open>now\<close>.\<close>

definition updateResendPeriod :: "U64 \<Rightarrow> World \<Rightarrow> World" where
  "updateResendPeriod now w =
     (let w' = w\<lparr>g_lastSend := now\<rparr>
      in if g_nextResendPeriod w' = 0
         then w'\<lparr>g_nextResendPeriod := FIRST_RESEND_PERIOD\<rparr>
         else w'\<lparr>g_finalState := (g_finalState w')\<lparr>mPrevAxes := mAxes (g_finalState w')\<rparr>,
                 g_nextResendPeriod := g_nextResendPeriod w' * RESEND_EXPANSION_RATE\<rparr>)"

definition computeFinalStateAndCheckForChanges :: "U64 \<Rightarrow> World \<Rightarrow> bool \<times> World" where
  "computeFinalStateAndCheckForChanges now w =
     (let w' = computeFinalState w
      in (g_sendToServer w' \<and> g_lastSend w' + g_nextResendPeriod w' < now, w'))"

text \<open>The value stored for axis i: the clamped sum narrowed to S16.\<close>

definition merged_axis :: "World \<Rightarrow> nat \<Rightarrow> S16" where
  "merged_axis w i = ucast (clamp_axis (summed_axis w i))"

text \<open>The initial values of the globals, with an empty manager.\<close>

definition World_init :: World where
  "World_init = \<lparr> mExternalState = State_init, mAxesAccumulator = replicate NUM_AXES 0,
       mButtonAccumulator = 0, g_finalState = State_init, g_lastSend = 0,
       g_nextResendPeriod = FIRST_RESEND_PERIOD, g_sendToServer = False,
       g_translateAgentActions = False \<rparr>"

text \<open>
  The button mask the merge computes, and the test "the merge will detect a change": the
  mask or one of the six clamped axes differs from the published final state.
\<close>

definition merged_buttons :: "World \<Rightarrow> U32" where
  "merged_buttons w =
     (if g_translateAgentActions w
      then mButtonAccumulator w OR mButtons (mExternalState w)
      else mButtonAccumulator w)"

definition final_state_changed :: "World \<Rightarrow> bool" where
  "final_state_changed w \<longleftrightarrow>
     mButtons (g_finalState w) \<noteq> merged_buttons w \<or>
     (\<exists>i \<in> set [0..<NUM_AXES]. mAxes (g_finalState w) ! i \<noteq> merged_axis w i)"

text \<open>
  A world to evaluate the merge on: accumulated axis 1 at 19999, axis 4 at 40000, device
  buttons 0 and 2, external button 1, translation of agent actions on.
\<close>

definition example_world :: World where
  "example_world = World_init\<lparr>mAxesAccumulator := [0, 19999, 0, 0, 40000, 0],
      mButtonAccumulator := 5,
      mExternalState := State_init\<lparr>mButtons := 2\<rparr>,
      g_translateAgentActions := True\<rparr>"

section \<open>Input channels and their names\<close>

datatype ChannelType = TYPE_NONE | TYPE_AXIS | TYPE_BUTTON

text \<open>
  \<open>LLGameControl::InputChannel\<close>: the type, the sign (S32) and the index (U8) of a raw
  input.
\<close>

record InputChannel =
  mType :: ChannelType
  mSign :: int
  mIndex :: U8

text \<open>
  Modelled from the spec: the member initialisers of \<open>InputChannel\<close> are in the header
  llgamecontrol.h, which is not among the sources. The spec gives a default ("none")
  channel the type NONE and calls its index and sign irrelevant; they are 255 and 0 here,
  and none of the numbered claims below depends on the two values. \<open>isNone\<close> is the
  header's test on the type.
\<close>

definition InputChannel_default :: InputChannel where
  "InputChannel_default = \<lparr> mType = TYPE_NONE, mSign = 0, mIndex = 255 \<rparr>"

definition isNone :: "InputChannel \<Rightarrow> bool" where
  "isNone channel \<longleftrightarrow> mType channel = TYPE_NONE"

text \<open>
  The C library as \<open>getChannelByName\<close> uses it. \<open>c_str\<close> is the string up to its first
  NUL; \<open>strncmp\<close> of two C strings is nonzero exactly when their first \<open>n\<close> characters
  differ; \<open>atoi\<close> skips white space, reads an optional sign and then decimal digits, and
  gives 0 when there is no digit. \<open>std::string::substr\<close> throws \<open>std::out_of_range\<close>
  when \<open>pos\<close> exceeds the size and \<open>back\<close> is undefined on the empty string: both are
  \<open>None\<close> here, and so is a call of \<open>getChannelByName\<close> that would reach either.
\<close>

definition c_str :: "string \<Rightarrow> string" where
  "c_str s = takeWhile (\<lambda>c. c \<noteq> CHR 0x00) s"

definition strncmp_differs :: "string \<Rightarrow> string \<Rightarrow> nat \<Rightarrow> bool" where
  "strncmp_differs a b n \<longleftrightarrow> take n a \<noteq> take n b"

definition isspace_c :: "char \<Rightarrow> bool" where
  "isspace_c c \<longleftrightarrow> c \<in> set [CHR '' '', CHR 0x09, CHR 0x0A, CHR 0x0B, CHR 0x0C, CHR 0x0D]"

definition isdigit_c :: "char \<Rightarrow> bool" where
  "isdigit_c c \<longleftrightarrow> c \<in> set ''0123456789''"

definition digit_value :: "char \<Rightarrow> int" where
  "digit_value c = int (of_char c) - 48"

fun atoi_digits :: "int \<Rightarrow> string \<Rightarrow> int" where
  "atoi_digits acc [] = acc"
| "atoi_digits acc (c # cs) =
     (if isdigit_c c then atoi_digits (acc * 10 + digit_value c) cs else acc)"

definition atoi :: "string \<Rightarrow> int" where
  "atoi s =
     (case dropWhile isspace_c s of
        [] \<Rightarrow> 0
      | c # cs \<Rightarrow>
          if c = CHR ''-'' then - atoi_digits 0 cs
          else if c = CHR ''+'' then atoi_digits 0 cs
          else atoi_digits 0 (c # cs))"

definition substr :: "string \<Rightarrow> nat \<Rightarrow> nat \<Rightarrow> string option" where
  "substr s pos n = (if pos > length s then None else Some (take n (drop pos s)))"

definition string_back :: "string \<Rightarrow> char option" where
  "string_back s = (if s = [] then None else Some (last s))"

definition getChannelByName :: "string \<Rightarrow> InputChannel option" where
  "getChannelByName name =
     (let channel = InputChannel_default
      in if \<not> strncmp_differs (c_str name) ''AXIS_'' 5 then
           (case substr name 5 1 of
              None \<Rightarrow> None
            | Some d \<Rightarrow>
                (case string_back name of
                   None \<Rightarrow> None
                 | Some b \<Rightarrow>
                     Some (channel\<lparr>mType := TYPE_AXIS,
                        mIndex := word_of_int (atoi (c_str d)),
                        mSign := (if b = CHR ''-'' then - 1 else 1)\<rparr>)))
         else if \<not> strncmp_differs (c_str name) ''BUTTON_'' 7 then
           (case substr name 7 2 of
              None \<Rightarrow> None
            | Some d \<Rightarrow>
                Some (channel\<lparr>mType := TYPE_BUTTON,
                   mIndex := word_of_int (atoi (c_str d))\<rparr>))
         else Some channel)"

section \<open>Flycam inputs\<close>

text \<open>
  \<open>mFlycamChannels\<close> as \<open>initializeMappingsByDefault\<close> sets it: advance, pan, rise,
  pitch, yaw, zoom.
\<close>

definition default_flycam_channels :: "InputChannel list" where
  "default_flycam_channels =
     [ \<lparr> mType = TYPE_AXIS, mSign = 1, mIndex = AXIS_LEFTY \<rparr>,
       \<lparr> mType = TYPE_AXIS, mSign = 1, mIndex = AXIS_LEFTX \<rparr>,
       \<lparr> mType = TYPE_AXIS, mSign = 1, mIndex = AXIS_TRIGGERRIGHT \<rparr>,
       \<lparr> mType = TYPE_AXIS, mSign = - 1, mIndex = AXIS_RIGHTY \<rparr>,
       \<lparr> mType = TYPE_AXIS, mSign = 1, mIndex = AXIS_RIGHTX \<rparr>,
       InputChannel_default\<lparr>mType := TYPE_NONE, mIndex := 0\<rparr> ]"

text \<open>
  \<open>getFlycamInputs\<close>, one channel at a time. \<open>clamp_S16\<close> is
  \<open>S16(std::min(std::max(x, -32768), 32767))\<close>. The subtraction and the negation of the
  tied triggers are in S32. A channel whose index is no trigger reads
  \<open>mAxesAccumulator[channel.mIndex]\<close>; outside the vector that read is undefined, and
  the model gives \<open>None\<close>. The F32 quotient is modelled by the exact quotient as a real
  number: rounding to binary32 is not modelled.
\<close>

definition clamp_S16 :: "S32 \<Rightarrow> S16" where
  "clamp_S16 x = scast (word_of_int (min (max (sint x) (- 32768)) 32767) :: S32)"

definition flycam_axis :: "S32 list \<Rightarrow> InputChannel \<Rightarrow> S16 option" where
  "flycam_axis acc channel =
     (if mIndex channel = AXIS_TRIGGERLEFT \<or> mIndex channel = AXIS_TRIGGERRIGHT then
        (let total_axis = acc ! unat AXIS_TRIGGERLEFT - acc ! unat AXIS_TRIGGERRIGHT;
             total_axis = (if mIndex channel = AXIS_TRIGGERRIGHT
                           then total_axis * (- 1) else total_axis)
         in Some (clamp_S16 total_axis))
      else if unat (mIndex channel) < length acc
        then Some (clamp_S16 (acc ! unat (mIndex channel)))
        else None)"

definition flycam_input :: "S32 list \<Rightarrow> InputChannel \<Rightarrow> real option" where
  "flycam_input acc channel =
     map_option
       (\<lambda>axis. real_of_int (sint axis) / (if sint axis > 0 then 32767 else 32768)
                 * real_of_int (mSign channel))
       (flycam_axis acc channel)"

fun getFlycamInputs_loop :: "S32 list \<Rightarrow> InputChannel list \<Rightarrow> real list \<Rightarrow> real list option" where
  "getFlycamInputs_loop acc [] inputs = Some inputs"
| "getFlycamInputs_loop acc (channel # channels) inputs =
     (case flycam_input acc channel of
        None \<Rightarrow> None
      | Some input \<Rightarrow> getFlycamInputs_loop acc channels (inputs @ [input]))"

definition getFlycamInputs :: "S32 list \<Rightarrow> InputChannel list \<Rightarrow> real list \<Rightarrow> real list option" where
  "getFlycamInputs acc channels inputs = getFlycamInputs_loop acc channels inputs"

section \<open>Action translator\<close>

text \<open>
  The \<open>AGENT_CONTROL_*\<close> constants are declared in indra_constants.h, which is not among
  the sources. They are a parameter here: a record of the seventeen constants the manager
  uses. \<open>agent_control_bits_ok\<close> says that each is a single bit and that no two are
  equal.
\<close>

record AgentControlBits =
  AGENT_CONTROL_AT_POS :: U32
  AGENT_CONTROL_AT_NEG :: U32
  AGENT_CONTROL_LEFT_POS :: U32
  AGENT_CONTROL_LEFT_NEG :: U32
  AGENT_CONTROL_UP_POS :: U32
  AGENT_CONTROL_UP_NEG :: U32
  AGENT_CONTROL_PITCH_POS :: U32
  AGENT_CONTROL_PITCH_NEG :: U32
  AGENT_CONTROL_YAW_POS :: U32
  AGENT_CONTROL_YAW_NEG :: U32
  AGENT_CONTROL_FAST_AT :: U32
  AGENT_CONTROL_FAST_LEFT :: U32
  AGENT_CONTROL_FAST_UP :: U32
  AGENT_CONTROL_FLY :: U32
  AGENT_CONTROL_STOP :: U32
  AGENT_CONTROL_NUDGE_AT_POS :: U32
  AGENT_CONTROL_NUDGE_AT_NEG :: U32

definition agent_control_list :: "AgentControlBits \<Rightarrow> U32 list" where
  "agent_control_list cb =
     [AGENT_CONTROL_AT_POS cb, AGENT_CONTROL_AT_NEG cb,
      AGENT_CONTROL_LEFT_POS cb, AGENT_CONTROL_LEFT_NEG cb,
      AGENT_CONTROL_UP_POS cb, AGENT_CONTROL_UP_NEG cb,
      AGENT_CONTROL_PITCH_POS cb, AGENT_CONTROL_PITCH_NEG cb,
      AGENT_CONTROL_YAW_POS cb, AGENT_CONTROL_YAW_NEG cb,
      AGENT_CONTROL_FAST_AT cb, AGENT_CONTROL_FAST_LEFT cb, AGENT_CONTROL_FAST_UP cb,
      AGENT_CONTROL_FLY cb, AGENT_CONTROL_STOP cb,
      AGENT_CONTROL_NUDGE_AT_POS cb, AGENT_CONTROL_NUDGE_AT_NEG cb]"

definition single_bit :: "U32 \<Rightarrow> bool" where
  "single_bit x \<longleftrightarrow> x \<in> set (map (\<lambda>k. push_bit k 1) [0..<32])"

definition agent_control_bits_ok :: "AgentControlBits \<Rightarrow> bool" where
  "agent_control_bits_ok cb \<longleftrightarrow>
     list_all single_bit (agent_control_list cb) \<and> distinct (agent_control_list cb)"

text \<open>The table \<open>actionMasks\<close> of the manager's constructor, in its order.\<close>

definition actionMasks :: "AgentControlBits \<Rightarrow> (string \<times> U32) list" where
  "actionMasks cb =
     [ (''push+'',  AGENT_CONTROL_AT_POS cb    OR AGENT_CONTROL_FAST_AT cb),
       (''push-'',  AGENT_CONTROL_AT_NEG cb    OR AGENT_CONTROL_FAST_AT cb),
       (''slide+'', AGENT_CONTROL_LEFT_POS cb  OR AGENT_CONTROL_FAST_LEFT cb),
       (''slide-'', AGENT_CONTROL_LEFT_NEG cb  OR AGENT_CONTROL_FAST_LEFT cb),
       (''jump+'',  AGENT_CONTROL_UP_POS cb    OR AGENT_CONTROL_FAST_UP cb),
       (''jump-'',  AGENT_CONTROL_UP_NEG cb    OR AGENT_CONTROL_FAST_UP cb),
       (''turn+'',  AGENT_CONTROL_YAW_POS cb),
       (''turn-'',  AGENT_CONTROL_YAW_NEG cb),
       (''look+'',  AGENT_CONTROL_PITCH_POS cb),
       (''look-'',  AGENT_CONTROL_PITCH_NEG cb),
       (''stop'',   AGENT_CONTROL_STOP cb),
       (''toggle_run'',    AGENT_CONTROL_NUDGE_AT_POS cb),
       (''toggle_fly'',    AGENT_CONTROL_FLY cb),
       (''toggle_flycam'', AGENT_CONTROL_NUDGE_AT_NEG cb) ]"

text \<open>
  Modelled from the spec: \<open>LLGameControlTranslator\<close> (llgamecontroltranslator.cpp) is not
  among the sources. Its state is the table registered by \<open>setAvailableActionMasks\<close>
  and the map from action names to channels.
\<close>

record LLGameControlTranslator =
  mActionToMask :: "(string \<times> U32) list"
  mActionToChannel :: "string \<rightharpoonup> InputChannel"

text \<open>
  Modelled from the spec: \<open>getChannelByAction\<close> of the translator "returns the bound
  channel or a none channel if unbound".
\<close>

definition translator_getChannelByAction :: "LLGameControlTranslator \<Rightarrow> string \<Rightarrow> InputChannel" where
  "translator_getChannelByAction tr action =
     (case mActionToChannel tr action of None \<Rightarrow> InputChannel_default | Some channel \<Rightarrow> channel)"

text \<open>
  Modelled from the spec: \<open>getMappedFlags\<close> is the "OR of all control-bits whose action
  currently has a non-none channel bound".
\<close>

definition getMappedFlags :: "LLGameControlTranslator \<Rightarrow> U32" where
  "getMappedFlags tr =
     fold (\<lambda>(action, mask) flags.
             if isNone (translator_getChannelByAction tr action) then flags else flags OR mask)
       (mActionToMask tr) 0"

text \<open>
  Modelled from the spec: a bound axis is active when "the signed axis value (after
  applying the channel's sign) is strictly positive", a bound button when it "is currently
  set"; an index out of the declared range is ignored.
\<close>

definition channel_active :: "S32 list \<Rightarrow> U32 \<Rightarrow> InputChannel \<Rightarrow> bool" where
  "channel_active axes buttons channel =
     (case mType channel of
        TYPE_NONE \<Rightarrow> False
      | TYPE_AXIS \<Rightarrow>
          unat (mIndex channel) < length axes \<and>
          0 < sint (axes ! unat (mIndex channel)) * mSign channel
      | TYPE_BUTTON \<Rightarrow>
          unat (mIndex channel) < NUM_BUTTONS \<and> bit buttons (unat (mIndex channel)))"

text \<open>
  Modelled from the spec: \<open>computeFlagsFromState\<close> ORs in the mask of every mapped action
  whose channel is active.
\<close>

definition computeFlagsFromState :: "LLGameControlTranslator \<Rightarrow> S32 list \<Rightarrow> U32 \<Rightarrow> U32" where
  "computeFlagsFromState tr axes buttons =
     fold (\<lambda>(action, mask) flags.
             if channel_active axes buttons (translator_getChannelByAction tr action)
             then flags OR mask else flags)
       (mActionToMask tr) 0"

text \<open>
  Modelled from the spec: "set the corresponding axis to full deflection (max magnitude in
  the channel's sign direction) or button bit"; a channel with sign 0 has no direction and
  writes nothing, and an index out of the declared range is ignored.
\<close>

definition full_deflection :: "InputChannel \<Rightarrow> State \<Rightarrow> State" where
  "full_deflection channel state =
     (case mType channel of
        TYPE_NONE \<Rightarrow> state
      | TYPE_AXIS \<Rightarrow>
          if unat (mIndex channel) < NUM_AXES \<and> mSign channel \<noteq> 0
          then state\<lparr>mAxes := (mAxes state)[unat (mIndex channel) :=
                        (if mSign channel < 0 then - 32768 else 32767)]\<rparr>
          else state
      | TYPE_BUTTON \<Rightarrow>
          if unat (mIndex channel) < NUM_BUTTONS
          then state\<lparr>mButtons := mButtons state OR push_bit (unat (mIndex channel)) 1\<rparr>
          else state)"

text \<open>
  Modelled from the spec: \<open>computeStateFromFlags\<close> starts from an empty state and, "for
  every mapped action whose bits are all present in flags", sets the action's channel.
\<close>

definition computeStateFromFlags :: "LLGameControlTranslator \<Rightarrow> U32 \<Rightarrow> State" where
  "computeStateFromFlags tr flags =
     fold (\<lambda>(action, mask) state.
             if mask AND flags = mask
             then full_deflection (translator_getChannelByAction tr action) state
             else state)
       (mActionToMask tr) State_init"

section \<open>Mappings and settings\<close>

text \<open>
  The action names and their types, as the manager's constructor collects them in
  \<open>mActions\<close>.
\<close>

datatype ActionNameType =
  ACTION_NAME_UNKNOWN | ACTION_NAME_ANALOG | ACTION_NAME_ANALOG_POS | ACTION_NAME_ANALOG_NEG
  | ACTION_NAME_BINARY | ACTION_NAME_FLYCAM

definition mAnalogActions :: "string list" where
  "mAnalogActions = [''push'', ''slide'', ''jump'', ''turn'', ''look'']"

definition mBinaryActions :: "string list" where
  "mBinaryActions = [''toggle_run'', ''toggle_fly'', ''toggle_flycam'', ''stop'']"

definition mFlycamActions :: "string list" where
  "mFlycamActions = [''advance'', ''pan'', ''rise'', ''pitch'', ''yaw'', ''zoom'']"

definition mActions :: "string \<rightharpoonup> ActionNameType" where
  "mActions =
     fold (\<lambda>name m. m(name \<mapsto> ACTION_NAME_FLYCAM)) mFlycamActions
       (fold (\<lambda>name m. m(name \<mapsto> ACTION_NAME_BINARY)) mBinaryActions
          (fold (\<lambda>name m. m(name \<mapsto> ACTION_NAME_ANALOG,
                             name @ ''+'' \<mapsto> ACTION_NAME_ANALOG_POS,
                             name @ ''-'' \<mapsto> ACTION_NAME_ANALOG_NEG))
             mAnalogActions Map.empty))"

definition getActionNameType :: "string \<Rightarrow> ActionNameType" where
  "getActionNameType action =
     (case mActions action of None \<Rightarrow> ACTION_NAME_UNKNOWN | Some t \<Rightarrow> t)"

text \<open>
  The button indices of the default mappings, in the order \<open>getRemoteName\<close> switches
  on.
\<close>

definition BUTTON_LEFTSTICK :: U8 where "BUTTON_LEFTSTICK = 7"

definition BUTTON_LEFTSHOULDER :: U8 where "BUTTON_LEFTSHOULDER = 9"

definition BUTTON_RIGHTSHOULDER :: U8 where "BUTTON_RIGHTSHOULDER = 10"

definition BUTTON_DPAD_UP :: U8 where "BUTTON_DPAD_UP = 11"

text \<open>The list \<open>agent_defaults\<close> of \<open>initializeMappingsByDefault\<close>.\<close>

definition agent_defaults :: "(string \<times> InputChannel) list" where
  "agent_defaults =
     [ (''push'',  \<lparr> mType = TYPE_AXIS, mSign = 1, mIndex = AXIS_LEFTY \<rparr>),
       (''slide'', \<lparr> mType = TYPE_AXIS, mSign = 1, mIndex = AXIS_LEFTX \<rparr>),
       (''jump'',  \<lparr> mType = TYPE_AXIS, mSign = 1, mIndex = AXIS_TRIGGERLEFT \<rparr>),
       (''turn'',  \<lparr> mType = TYPE_AXIS, mSign = 1, mIndex = AXIS_RIGHTX \<rparr>),
       (''look'',  \<lparr> mType = TYPE_AXIS, mSign = 1, mIndex = AXIS_RIGHTY \<rparr>),
       (''toggle_run'',    InputChannel_default\<lparr>mType := TYPE_BUTTON, mIndex := BUTTON_LEFTSHOULDER\<rparr>),
       (''toggle_fly'',    InputChannel_default\<lparr>mType := TYPE_BUTTON, mIndex := BUTTON_DPAD_UP\<rparr>),
       (''toggle_flycam'', InputChannel_default\<lparr>mType := TYPE_BUTTON, mIndex := BUTTON_RIGHTSHOULDER\<rparr>),
       (''stop'',          InputChannel_default\<lparr>mType := TYPE_BUTTON, mIndex := BUTTON_LEFTSTICK\<rparr>) ]"

text \<open>
  Modelled from the spec: \<open>updateMap\<close> of the translator "replace[s] the channel bound to
  one action name", and "if channel.isNone(), unbind[s]".
\<close>

definition updateMapInternal :: "string \<Rightarrow> InputChannel \<Rightarrow> LLGameControlTranslator \<Rightarrow> LLGameControlTranslator" where
  "updateMapInternal name channel tr =
     tr\<lparr>mActionToChannel :=
          (if isNone channel then (mActionToChannel tr)(name := None)
           else (mActionToChannel tr)(name \<mapsto> channel))\<rparr>"

text \<open>
  Modelled from the spec: an analog action given by its base name is expanded into its
  two signed names "with opposite implied polarity". The name with + gets the channel as
  given, since \<open>getAnalogMappings\<close> writes the channel of the + name under the base name.
\<close>

definition translator_updateMap :: "string \<Rightarrow> InputChannel \<Rightarrow> LLGameControlTranslator \<Rightarrow> LLGameControlTranslator" where
  "translator_updateMap name channel tr =
     (if getActionNameType name = ACTION_NAME_ANALOG
      then updateMapInternal (name @ ''-'')
             (if isNone channel then channel else channel\<lparr>mSign := - mSign channel\<rparr>)
             (updateMapInternal (name @ ''+'') channel tr)
      else updateMapInternal name channel tr)"

text \<open>
  Modelled from the spec: \<open>setMappings\<close> of the translator builds the map from a list of
  base names and channels.
\<close>

definition translator_setMappings :: "(string \<times> InputChannel) list \<Rightarrow> LLGameControlTranslator \<Rightarrow> LLGameControlTranslator" where
  "translator_setMappings named_channels tr =
     fold (\<lambda>(name, channel). translator_updateMap name channel) named_channels
       (tr\<lparr>mActionToChannel := Map.empty\<rparr>)"

text \<open>The mapping tables of the manager.\<close>

record LLGameControllerManager =
  mActionTranslator :: LLGameControlTranslator
  mFlycamChannels :: "InputChannel list"

definition initializeMappingsByDefault :: "LLGameControllerManager \<Rightarrow> LLGameControllerManager" where
  "initializeMappingsByDefault mgr =
     mgr\<lparr>mActionTranslator := translator_setMappings agent_defaults (mActionTranslator mgr),
         mFlycamChannels := default_flycam_channels\<rparr>"

definition LLGameControllerManager_init :: "AgentControlBits \<Rightarrow> LLGameControllerManager" where
  "LLGameControllerManager_init cb =
     initializeMappingsByDefault
       \<lparr> mActionTranslator = \<lparr> mActionToMask = actionMasks cb, mActionToChannel = Map.empty \<rparr>,
         mFlycamChannels = [] \<rparr>"

text \<open>
  \<open>updateFlycamMap\<close>: the position of the action among the flycam actions, asserted to
  be in range; out of range nothing is written.
\<close>

fun find_index :: "string \<Rightarrow> string list \<Rightarrow> nat" where
  "find_index x [] = 0"
| "find_index x (y # ys) = (if x = y then 0 else Suc (find_index x ys))"

definition updateFlycamMap :: "string \<Rightarrow> InputChannel \<Rightarrow> LLGameControllerManager \<Rightarrow> LLGameControllerManager" where
  "updateFlycamMap action channel mgr =
     (let index = find_index action mFlycamActions
      in if index < length (mFlycamChannels mgr)
         then mgr\<lparr>mFlycamChannels := (mFlycamChannels mgr)[index := channel]\<rparr>
         else mgr)"

text \<open>
  Modelled from the spec: \<open>LLStringOps::splitString\<close> is not among the sources; a mapping
  string is "a comma-separated list of actionName:channelName pairs". \<open>string_find\<close> is
  \<open>std::string::find\<close>, \<open>None\<close> for \<open>npos\<close>.
\<close>

fun splitString_loop :: "char \<Rightarrow> string \<Rightarrow> string \<Rightarrow> string list" where
  "splitString_loop delim cur [] = [cur]"
| "splitString_loop delim cur (c # cs) =
     (if c = delim then cur # splitString_loop delim [] cs
      else splitString_loop delim (cur @ [c]) cs)"

definition splitString :: "string \<Rightarrow> char \<Rightarrow> string list" where
  "splitString s delim = splitString_loop delim [] s"

fun string_find :: "string \<Rightarrow> char \<Rightarrow> nat option" where
  "string_find [] c = None"
| "string_find (x # xs) c = (if x = c then Some 0 else map_option Suc (string_find xs c))"

definition parse_pairs :: "string \<Rightarrow> (string \<rightharpoonup> string)" where
  "parse_pairs mappings =
     fold (\<lambda>mapping pairs.
             case string_find mapping (CHR '':'') of
               None \<Rightarrow> pairs
             | Some pos \<Rightarrow>
                 if pos > 0 then pairs(take pos mapping \<mapsto> drop (pos + 1) mapping) else pairs)
       (splitString mappings (CHR '','')) Map.empty"

text \<open>
  The static \<open>setMappings\<close> of llgamecontrol.cpp. \<open>getChannelByName\<close> never raises
  (C6), so its \<open>None\<close> branch is never taken.
\<close>

definition setMappings :: "string \<Rightarrow> string list \<Rightarrow> ChannelType \<Rightarrow>
    (string \<Rightarrow> InputChannel \<Rightarrow> 's \<Rightarrow> 's) \<Rightarrow> 's \<Rightarrow> 's" where
  "setMappings mappings actions type updateMap s =
     (let pairs = parse_pairs mappings; channelNone = InputChannel_default
      in fold (\<lambda>action s.
                 case pairs action of
                   None \<Rightarrow> updateMap action channelNone s
                 | Some name \<Rightarrow>
                     (case getChannelByName name of
                        None \<Rightarrow> s
                      | Some channel \<Rightarrow>
                          if isNone channel \<or> mType channel = type
                          then updateMap action channel s
                          else updateMap action channelNone s))
           actions s)"

definition setAnalogMappings :: "string \<Rightarrow> LLGameControllerManager \<Rightarrow> LLGameControllerManager" where
  "setAnalogMappings mappings mgr =
     setMappings mappings mAnalogActions TYPE_AXIS
       (\<lambda>action channel mgr.
          mgr\<lparr>mActionTranslator := translator_updateMap action channel (mActionTranslator mgr)\<rparr>)
       mgr"

definition setBinaryMappings :: "string \<Rightarrow> LLGameControllerManager \<Rightarrow> LLGameControllerManager" where
  "setBinaryMappings mappings mgr =
     setMappings mappings mBinaryActions TYPE_BUTTON
       (\<lambda>action channel mgr.
          mgr\<lparr>mActionTranslator := translator_updateMap action channel (mActionTranslator mgr)\<rparr>)
       mgr"

definition setFlycamMappings :: "string \<Rightarrow> LLGameControllerManager \<Rightarrow> LLGameControllerManager" where
  "setFlycamMappings mappings mgr =
     setMappings mappings mFlycamActions TYPE_AXIS updateFlycamMap mgr"

definition SETTING_SENDTOSERVER :: string where "SETTING_SENDTOSERVER = ''GameControlToServer''"

definition SETTING_CONTROLAGENT :: string where "SETTING_CONTROLAGENT = ''GameControlToAgent''"

definition SETTING_TRANSLATEACTIONS :: string where "SETTING_TRANSLATEACTIONS = ''AgentToGameControl''"

definition SETTING_AGENTCONTROLMODE :: string where "SETTING_AGENTCONTROLMODE = ''AgentControlMode''"

definition SETTING_ANALOGMAPPINGS :: string where "SETTING_ANALOGMAPPINGS = ''AnalogChannelMappings''"

definition SETTING_BINARYMAPPINGS :: string where "SETTING_BINARYMAPPINGS = ''BinaryChannelMappings''"

definition SETTING_FLYCAMMAPPINGS :: string where "SETTING_FLYCAMMAPPINGS = ''FlycamChannelMappings''"

text \<open>
  The globals \<open>loadFromSettings\<close> writes; the two load callbacks are its arguments.
\<close>

record GameControl =
  g_world :: World
  g_controlAgent :: bool
  g_agentControlMode :: AgentControlMode
  g_manager :: LLGameControllerManager

definition loadFromSettings :: "(string \<Rightarrow> bool) \<Rightarrow> (string \<Rightarrow> string) \<Rightarrow> GameControl \<Rightarrow> GameControl" where
  "loadFromSettings s_loadBoolean s_loadString g =
     (let g = g\<lparr>g_world := (g_world g)\<lparr>g_sendToServer := s_loadBoolean SETTING_SENDTOSERVER\<rparr>\<rparr>;
          g = g\<lparr>g_controlAgent := s_loadBoolean SETTING_CONTROLAGENT\<rparr>;
          g = g\<lparr>g_world := (g_world g)\<lparr>g_translateAgentActions :=
                  s_loadBoolean SETTING_TRANSLATEACTIONS\<rparr>\<rparr>;
          g = g\<lparr>g_agentControlMode :=
                  convertStringToAgentControlMode (s_loadString SETTING_AGENTCONTROLMODE)\<rparr>;
          analogMappings = s_loadString SETTING_ANALOGMAPPINGS;
          binaryMappings = s_loadString SETTING_BINARYMAPPINGS;
          flycamMappings = s_loadString SETTING_FLYCAMMAPPINGS
      in if analogMappings = [] \<and> binaryMappings = [] \<and> flycamMappings = []
         then g\<lparr>g_manager := initializeMappingsByDefault (g_manager g)\<rparr>
         else
           (let mgr = setFlycamMappings flycamMappings
                        (setBinaryMappings binaryMappings
                          (setAnalogMappings analogMappings (g_manager g)))
            in if getMappedFlags (mActionTranslator mgr) = 0
               then g\<lparr>g_manager := initializeMappingsByDefault mgr\<rparr>
               else g\<lparr>g_manager := mgr\<rparr>))"

text \<open>Seventeen different single bits for the \<open>AGENT_CONTROL_*\<close> constants.\<close>

definition example_agent_control_bits :: AgentControlBits where
  "example_agent_control_bits =
     \<lparr> AGENT_CONTROL_AT_POS = 0x1, AGENT_CONTROL_AT_NEG = 0x2,
       AGENT_CONTROL_LEFT_POS = 0x4, AGENT_CONTROL_LEFT_NEG = 0x8,
       AGENT_CONTROL_UP_POS = 0x10, AGENT_CONTROL_UP_NEG = 0x20,
       AGENT_CONTROL_PITCH_POS = 0x40, AGENT_CONTROL_PITCH_NEG = 0x80,
       AGENT_CONTROL_YAW_POS = 0x100, AGENT_CONTROL_YAW_NEG = 0x200,
       AGENT_CONTROL_FAST_AT = 0x400, AGENT_CONTROL_FAST_LEFT = 0x800,
       AGENT_CONTROL_FAST_UP = 0x1000, AGENT_CONTROL_FLY = 0x2000,
       AGENT_CONTROL_STOP = 0x4000, AGENT_CONTROL_NUDGE_AT_POS = 0x80000,
       AGENT_CONTROL_NUDGE_AT_NEG = 0x100000 \<rparr>"

text \<open>
  A settings store whose only mapping string binds "push" to a button, which is not an
  axis, and a freshly constructed controller.
\<close>

definition example_settings :: "string \<Rightarrow> string" where
  "example_settings key = (if key = SETTING_ANALOGMAPPINGS then ''push:BUTTON_1'' else [])"

definition example_game_control :: GameControl where
  "example_game_control =
     \<lparr> g_world = World_init, g_controlAgent = False, g_agentControlMode = CONTROL_MODE_AVATAR,
       g_manager = LLGameControllerManager_init example_agent_control_bits \<rparr>"

section \<open>Axis negation\<close>

lemma sint_S16_range: "- 32768 \<le> sint (v :: S16) \<and> sint v \<le> 32767"
  using sint_ge [of v] sint_lt [of v] by simp

lemma sint_word_of_int_S16:
  "- 32768 \<le> x \<Longrightarrow> x \<le> 32767 \<Longrightarrow> sint (word_of_int x :: S16) = x"
  by (simp only: sint_sbintrunc') (rule signed_take_bit_int_eq_self; simp)

lemma sint_negate_axis_value:
  "sint (negate_axis_value v) =
     (if sint v < 0 then - (sint v + 1) else if 0 < sint v then - sint v - 1 else 0)"
proof -
  have r: "- 32768 \<le> sint v" "sint v \<le> 32767"
    using sint_S16_range [of v] by simp_all
  show ?thesis
  proof (cases "sint v < 0")
    case True
    then have "negate_axis_value v = word_of_int (- (sint v + 1))"
      by (simp only: negate_axis_value_def if_True)
    moreover have "sint (word_of_int (- (sint v + 1)) :: S16) = - (sint v + 1)"
      using r True by (intro sint_word_of_int_S16) linarith+
    ultimately show ?thesis using True by simp
  next
    case False
    show ?thesis
    proof (cases "0 < sint v")
      case True
      then have "negate_axis_value v = word_of_int ((- sint v) - 1)"
        using False by (simp only: negate_axis_value_def if_True if_False)
      moreover have "sint (word_of_int ((- sint v) - 1) :: S16) = (- sint v) - 1"
        using r True by (intro sint_word_of_int_S16) linarith+
      ultimately show ?thesis using True False by simp
    next
      case False
      with \<open>\<not> sint v < 0\<close> have "sint v = 0" by simp
      then show ?thesis by (simp add: negate_axis_value_def)
    qed
  qed
qed

text \<open>
  C1 (as stated): negating a raw value twice by the storage rule gives the value back.
  The rule sends both \<open>-1\<close> and \<open>0\<close> to \<open>0\<close>, so the raw value \<open>-1\<close> comes back as \<open>0\<close>.
\<close>

theorem C1_negate_twice_counterexample:
  "negate_axis_value (negate_axis_value (- 1)) \<noteq> - 1"
  by (simp add: negate_axis_value_def)

text \<open>
  C1 (amended): for every raw S16 value other than \<open>-1\<close>, negating twice by the storage
  rule gives the value back, and the negation never leaves the S16 range: the stored value
  is the integer the rule computes (so \<open>-32768\<close> is stored as \<open>32767\<close>).
\<close>

theorem C1_negate_twice:
  "v \<noteq> - 1 \<Longrightarrow>
     negate_axis_value (negate_axis_value v) = v \<and>
     sint (negate_axis_value v) =
       (if sint v < 0 then - (sint v + 1) else if 0 < sint v then - sint v - 1 else 0)"
proof -
  assume nz: "v \<noteq> - 1"
  have ne: "sint v \<noteq> - 1"
  proof
    assume "sint v = - 1"
    then have "word_of_int (sint v) = (word_of_int (- 1) :: S16)" by simp
    then show False using nz by simp
  qed
  have "sint (negate_axis_value (negate_axis_value v)) = sint v"
    using ne by (simp add: sint_negate_axis_value)
  then have "negate_axis_value (negate_axis_value v) = v"
    by (simp add: signed_word_eqI)
  then show ?thesis by (simp add: sint_negate_axis_value)
qed

theorem C1_negate_twice_witness:
  "(- 32768 :: S16) \<noteq> - 1 \<and>
   negate_axis_value (negate_axis_value (- 32768)) = - 32768 \<and>
   sint (negate_axis_value (- 32768)) = 32767"
  using C1_negate_twice [of "- 32768"] by simp

section \<open>Agent control mode round trip\<close>

text \<open>
  C10: converting a mode to its string and back gives the mode; AVATAR is written as the
  empty string; every string other than "none" and "flycam" (so also "avatar" and the
  empty string) reads as AVATAR.
\<close>

theorem C10_mode_roundtrip:
  "convertStringToAgentControlMode (convertAgentControlModeToString m) = m \<and>
   convertAgentControlModeToString CONTROL_MODE_AVATAR = [] \<and>
   convertAgentControlModeToString CONTROL_MODE_AVATAR \<noteq> ''avatar'' \<and>
   (s \<noteq> ''none'' \<and> s \<noteq> ''flycam'' \<longrightarrow>
      convertStringToAgentControlMode s = CONTROL_MODE_AVATAR) \<and>
   convertStringToAgentControlMode ''avatar'' = CONTROL_MODE_AVATAR \<and>
   convertStringToAgentControlMode [] = CONTROL_MODE_AVATAR"
  by (cases m)
     (simp_all add: convertStringToAgentControlMode_def convertAgentControlModeToString_def
        ENUM_AGENTCONTROLMODE_NONE_def ENUM_AGENTCONTROLMODE_FLYCAM_def)

theorem C10_mode_roundtrip_witness:
  "convertStringToAgentControlMode (convertAgentControlModeToString CONTROL_MODE_FLYCAM)
     = CONTROL_MODE_FLYCAM \<and>
   ''avatar'' \<noteq> ''none'' \<and> ''avatar'' \<noteq> ''flycam'' \<and>
   convertStringToAgentControlMode ''avatar'' = CONTROL_MODE_AVATAR"
  using C10_mode_roundtrip [of CONTROL_MODE_FLYCAM "''avatar''"] by simp

section \<open>Merging into the final state\<close>

lemma clamp_range:
  "- 32768 \<le> min (max (x :: int) (- 32768)) 32767 \<and> min (max x (- 32768)) 32767 \<le> 32767"
  by simp

lemma clamp_axis_scast:
  "clamp_axis a = scast (word_of_int (min (max (sint a) (- 32768)) 32767) :: S16)"
proof -
  let ?c = "min (max (sint a) (- 32768)) 32767"
  have "sint (word_of_int ?c :: S32) = ?c"
    by (simp only: sint_sbintrunc') (rule signed_take_bit_int_eq_self; simp)
  then have "(scast (word_of_int ?c :: S32) :: S16) = word_of_int ?c"
    by (simp only: scast_eq)
  then show ?thesis by (simp only: clamp_axis_def)
qed

lemma sint_clamp_axis: "sint (clamp_axis a) = min (max (sint a) (- 32768)) 32767"
proof -
  let ?c = "min (max (sint a) (- 32768)) 32767"
  have "sint (scast (word_of_int ?c :: S16) :: S32) = sint (word_of_int ?c :: S16)"
    by (rule sint_up_scast) (simp add: is_up)
  also have "\<dots> = ?c"
    by (rule sint_word_of_int_S16) simp_all
  finally show ?thesis by (simp only: clamp_axis_scast)
qed

lemma ucast_scast_S16: "(ucast (scast (y :: S16) :: S32) :: S16) = y"
  by (rule bit_word_eqI) (simp add: bit_simps)

lemma ucast_clamp_axis:
  "(ucast (clamp_axis a) :: S16) = word_of_int (min (max (sint a) (- 32768)) 32767)"
  by (simp only: clamp_axis_scast ucast_scast_S16)

lemma sint_merged_axis:
  "sint (merged_axis w i) = min (max (sint (summed_axis w i)) (- 32768)) 32767"
  unfolding merged_axis_def ucast_clamp_axis
  by (rule sint_word_of_int_S16) simp_all

lemma scast_merged_axis: "scast (merged_axis w i) = clamp_axis (summed_axis w i)"
  by (simp only: merged_axis_def clamp_axis_scast ucast_scast_S16)

lemma scast_S16_S32_eq_iff: "(scast (x :: S16) :: S32) = scast y \<longleftrightarrow> x = y"
proof
  assume "(scast x :: S32) = scast y"
  then have "sint (scast x :: S32) = sint (scast y :: S32)" by simp
  then have "sint x = sint y" by (simp add: sint_up_scast is_up)
  then show "x = y" by (rule signed_word_eqI)
qed simp

lemma axis_changed_iff:
  "(scast (x :: S16) \<noteq> clamp_axis (summed_axis w i)) \<longleftrightarrow> x \<noteq> merged_axis w i"
  by (simp only: scast_merged_axis [symmetric] scast_S16_S32_eq_iff)

lemma computeFinalState_axis_eq:
  "computeFinalState_axis i w =
     (if mAxes (g_finalState w) ! i \<noteq> merged_axis w i
      then w\<lparr>g_finalState :=
                (g_finalState w)\<lparr>mPrevAxes := (mPrevAxes (g_finalState w))[i := mAxes (g_finalState w) ! i],
                   mAxes := (mAxes (g_finalState w))[i := merged_axis w i]\<rparr>,
              g_nextResendPeriod := 0\<rparr>
      else w)"
  by (simp add: computeFinalState_axis_def Let_def axis_changed_iff merged_axis_def)

lemma axis_step_inputs:
  "mAxesAccumulator (computeFinalState_axis i w) = mAxesAccumulator w"
  "mExternalState (computeFinalState_axis i w) = mExternalState w"
  "mButtonAccumulator (computeFinalState_axis i w) = mButtonAccumulator w"
  "g_translateAgentActions (computeFinalState_axis i w) = g_translateAgentActions w"
  "g_lastSend (computeFinalState_axis i w) = g_lastSend w"
  "g_sendToServer (computeFinalState_axis i w) = g_sendToServer w"
  "mButtons (g_finalState (computeFinalState_axis i w)) = mButtons (g_finalState w)"
  by (simp_all add: computeFinalState_axis_eq)

lemma axis_step_merged: "merged_axis (computeFinalState_axis i w) j = merged_axis w j"
  by (simp add: merged_axis_def summed_axis_def Let_def axis_step_inputs)

lemma axis_step_axes:
  "mAxes (g_finalState (computeFinalState_axis i w)) =
     (mAxes (g_finalState w))[i := merged_axis w i]"
proof (cases "mAxes (g_finalState w) ! i = merged_axis w i")
  case True
  then show ?thesis
    using list_update_id [of "mAxes (g_finalState w)" i]
    by (simp add: computeFinalState_axis_eq)
next
  case False
  then show ?thesis by (simp add: computeFinalState_axis_eq)
qed

lemma axis_step_prev:
  "mPrevAxes (g_finalState (computeFinalState_axis i w)) =
     (if mAxes (g_finalState w) ! i \<noteq> merged_axis w i
      then (mPrevAxes (g_finalState w))[i := mAxes (g_finalState w) ! i]
      else mPrevAxes (g_finalState w))"
  by (simp add: computeFinalState_axis_eq)

lemma axis_step_period:
  "g_nextResendPeriod (computeFinalState_axis i w) =
     (if mAxes (g_finalState w) ! i \<noteq> merged_axis w i then 0 else g_nextResendPeriod w)"
  by (simp add: computeFinalState_axis_eq)

lemma axis_step_unchanged:
  "mAxes (g_finalState w) ! i = merged_axis w i \<Longrightarrow> computeFinalState_axis i w = w"
  by (simp add: computeFinalState_axis_eq)

lemma axis_fold_inputs:
  "mAxesAccumulator (fold computeFinalState_axis js w) = mAxesAccumulator w \<and>
   mExternalState (fold computeFinalState_axis js w) = mExternalState w \<and>
   mButtonAccumulator (fold computeFinalState_axis js w) = mButtonAccumulator w \<and>
   g_translateAgentActions (fold computeFinalState_axis js w) = g_translateAgentActions w \<and>
   g_lastSend (fold computeFinalState_axis js w) = g_lastSend w \<and>
   g_sendToServer (fold computeFinalState_axis js w) = g_sendToServer w \<and>
   mButtons (g_finalState (fold computeFinalState_axis js w)) = mButtons (g_finalState w)"
  by (induction js arbitrary: w) (simp_all add: axis_step_inputs)

lemma axis_fold_axes:
  "\<forall>i \<in> set js. i < length (mAxes (g_finalState w)) \<Longrightarrow>
   mAxes (g_finalState (fold computeFinalState_axis js w)) ! j =
     (if j \<in> set js then merged_axis w j else mAxes (g_finalState w) ! j)"
proof (induction js arbitrary: w)
  case Nil
  then show ?case by simp
next
  case (Cons i js)
  let ?w = "computeFinalState_axis i w"
  have len: "length (mAxes (g_finalState ?w)) = length (mAxes (g_finalState w))"
    by (simp add: axis_step_axes)
  have "\<forall>k \<in> set js. k < length (mAxes (g_finalState ?w))"
    using Cons.prems len by simp
  then have "mAxes (g_finalState (fold computeFinalState_axis js ?w)) ! j =
      (if j \<in> set js then merged_axis ?w j else mAxes (g_finalState ?w) ! j)"
    by (rule Cons.IH)
  moreover have "i < length (mAxes (g_finalState w))"
    using Cons.prems by simp
  ultimately show ?case
    by (cases "j = i") (simp_all add: axis_step_merged axis_step_axes)
qed

lemma axis_fold_length:
  "length (mAxes (g_finalState (fold computeFinalState_axis js w))) =
     length (mAxes (g_finalState w)) \<and>
   length (mPrevAxes (g_finalState (fold computeFinalState_axis js w))) =
     length (mPrevAxes (g_finalState w))"
  by (induction js arbitrary: w) (simp_all add: axis_step_axes axis_step_prev)

lemma axis_fold_prev:
  "\<forall>i \<in> set js. i < length (mAxes (g_finalState w)) \<Longrightarrow>
   j < length (mPrevAxes (g_finalState w)) \<Longrightarrow>
   mPrevAxes (g_finalState (fold computeFinalState_axis js w)) ! j =
     (if j \<in> set js \<and> mAxes (g_finalState w) ! j \<noteq> merged_axis w j
      then mAxes (g_finalState w) ! j else mPrevAxes (g_finalState w) ! j)"
proof (induction js arbitrary: w)
  case Nil
  then show ?case by simp
next
  case (Cons i js)
  let ?w = "computeFinalState_axis i w"
  have len: "length (mAxes (g_finalState ?w)) = length (mAxes (g_finalState w))"
    by (simp add: axis_step_axes)
  have lenp: "length (mPrevAxes (g_finalState ?w)) = length (mPrevAxes (g_finalState w))"
    by (simp add: axis_step_prev)
  have i: "i < length (mAxes (g_finalState w))"
    using Cons.prems by simp
  have "\<forall>k \<in> set js. k < length (mAxes (g_finalState ?w))"
    using Cons.prems len by simp
  moreover have "j < length (mPrevAxes (g_finalState ?w))"
    using Cons.prems lenp by simp
  ultimately have IH: "mPrevAxes (g_finalState (fold computeFinalState_axis js ?w)) ! j =
      (if j \<in> set js \<and> mAxes (g_finalState ?w) ! j \<noteq> merged_axis ?w j
       then mAxes (g_finalState ?w) ! j else mPrevAxes (g_finalState ?w) ! j)"
    by (rule Cons.IH)
  show ?case
  proof (cases "j = i")
    case True
    then show ?thesis
      using IH i Cons.prems(2) by (simp add: axis_step_merged axis_step_axes axis_step_prev)
  next
    case False
    then show ?thesis
      using IH by (simp add: axis_step_merged axis_step_axes axis_step_prev)
  qed
qed

lemma axis_fold_period_zero:
  "g_nextResendPeriod w = 0 \<Longrightarrow> g_nextResendPeriod (fold computeFinalState_axis js w) = 0"
  by (induction js arbitrary: w) (simp_all add: axis_step_period)

lemma axis_fold_period_changed:
  "j \<in> set js \<Longrightarrow> mAxes (g_finalState w) ! j \<noteq> merged_axis w j \<Longrightarrow>
   g_nextResendPeriod (fold computeFinalState_axis js w) = 0"
proof (induction js arbitrary: w)
  case Nil
  then show ?case by simp
next
  case (Cons i js)
  show ?case
  proof (cases "mAxes (g_finalState w) ! i = merged_axis w i")
    case True
    then have same: "computeFinalState_axis i w = w"
      by (rule axis_step_unchanged)
    from True Cons.prems have "j \<in> set js" by auto
    then show ?thesis
      using Cons.IH [of w] Cons.prems(2) same by simp
  next
    case False
    then have "g_nextResendPeriod (computeFinalState_axis i w) = 0"
      by (simp add: axis_step_period)
    then show ?thesis
      by (simp add: axis_fold_period_zero)
  qed
qed

lemma axis_fold_unchanged:
  "\<forall>j \<in> set js. mAxes (g_finalState w) ! j = merged_axis w j \<Longrightarrow>
   fold computeFinalState_axis js w = w"
  by (induction js) (simp_all add: axis_step_unchanged)

lemma buttons_step_fields:
  "mAxesAccumulator (computeFinalState_buttons w) = mAxesAccumulator w"
  "mExternalState (computeFinalState_buttons w) = mExternalState w"
  "mButtonAccumulator (computeFinalState_buttons w) = mButtonAccumulator w"
  "g_translateAgentActions (computeFinalState_buttons w) = g_translateAgentActions w"
  "mAxes (g_finalState (computeFinalState_buttons w)) = mAxes (g_finalState w)"
  "mPrevAxes (g_finalState (computeFinalState_buttons w)) = mPrevAxes (g_finalState w)"
  "mButtons (g_finalState (computeFinalState_buttons w)) = merged_buttons w"
  "g_nextResendPeriod (computeFinalState_buttons w) =
     (if mButtons (g_finalState w) \<noteq> merged_buttons w then 0 else g_nextResendPeriod w)"
  by (simp_all add: computeFinalState_buttons_def merged_buttons_def Let_def)

lemma buttons_step_merged: "merged_axis (computeFinalState_buttons w) j = merged_axis w j"
  by (simp add: merged_axis_def summed_axis_def Let_def buttons_step_fields)

lemma buttons_step_unchanged:
  "mButtons (g_finalState w) = merged_buttons w \<Longrightarrow> computeFinalState_buttons w = w"
  by (simp add: computeFinalState_buttons_def merged_buttons_def Let_def)

lemma computeFinalState_unchanged:
  "\<not> final_state_changed w \<Longrightarrow> computeFinalState w = w"
  by (simp add: final_state_changed_def computeFinalState_def buttons_step_unchanged
      axis_fold_unchanged)

lemma computeFinalState_buttons_eq:
  "mButtons (g_finalState (computeFinalState w)) = merged_buttons w"
  by (simp add: computeFinalState_def axis_fold_inputs buttons_step_fields)

lemma computeFinalState_axes:
  "wf_World w \<Longrightarrow> i < NUM_AXES \<Longrightarrow>
   mAxes (g_finalState (computeFinalState w)) ! i = merged_axis w i"
  by (simp add: computeFinalState_def axis_fold_axes buttons_step_fields buttons_step_merged
      wf_World_def)

lemma computeFinalState_prev:
  "wf_World w \<Longrightarrow> i < NUM_AXES \<Longrightarrow>
   mPrevAxes (g_finalState (computeFinalState w)) ! i =
     (if mAxes (g_finalState w) ! i \<noteq> merged_axis w i
      then mAxes (g_finalState w) ! i else mPrevAxes (g_finalState w) ! i)"
  by (simp add: computeFinalState_def axis_fold_prev buttons_step_fields buttons_step_merged
      wf_World_def)

lemma computeFinalState_period_changed:
  "final_state_changed w \<Longrightarrow> g_nextResendPeriod (computeFinalState w) = 0"
proof -
  assume "final_state_changed w"
  then consider (b) "mButtons (g_finalState w) \<noteq> merged_buttons w"
    | (a) i where "i \<in> set [0..<NUM_AXES]" "mAxes (g_finalState w) ! i \<noteq> merged_axis w i"
    unfolding final_state_changed_def by blast
  then show ?thesis
  proof cases
    case b
    then have "g_nextResendPeriod (computeFinalState_buttons w) = 0"
      by (simp add: buttons_step_fields)
    then show ?thesis
      by (simp add: computeFinalState_def axis_fold_period_zero)
  next
    case a
    have "mAxes (g_finalState (computeFinalState_buttons w)) ! i
        \<noteq> merged_axis (computeFinalState_buttons w) i"
      using a(2) by (simp add: buttons_step_fields buttons_step_merged)
    with a(1) show ?thesis
      unfolding computeFinalState_def by (rule axis_fold_period_changed)
  qed
qed

lemma computeFinalState_wf: "wf_World w \<Longrightarrow> wf_World (computeFinalState w)"
  by (simp add: wf_World_def computeFinalState_def axis_fold_inputs axis_fold_length
      buttons_step_fields)

lemma computeFinalState_merged: "merged_axis (computeFinalState w) j = merged_axis w j"
  by (simp add: merged_axis_def summed_axis_def Let_def computeFinalState_def axis_fold_inputs
      buttons_step_fields)

lemma computeFinalState_merged_buttons: "merged_buttons (computeFinalState w) = merged_buttons w"
  by (simp add: merged_buttons_def computeFinalState_def axis_fold_inputs buttons_step_fields)

lemma computeFinalState_settled:
  "wf_World w \<Longrightarrow> \<not> final_state_changed (computeFinalState w)"
  by (simp add: final_state_changed_def computeFinalState_buttons_eq
      computeFinalState_merged_buttons computeFinalState_merged computeFinalState_axes)

lemma updateResendPeriod_fields:
  "mAxesAccumulator (updateResendPeriod now w) = mAxesAccumulator w"
  "mExternalState (updateResendPeriod now w) = mExternalState w"
  "mButtonAccumulator (updateResendPeriod now w) = mButtonAccumulator w"
  "g_translateAgentActions (updateResendPeriod now w) = g_translateAgentActions w"
  "mAxes (g_finalState (updateResendPeriod now w)) = mAxes (g_finalState w)"
  "mButtons (g_finalState (updateResendPeriod now w)) = mButtons (g_finalState w)"
  "mPrevAxes (g_finalState (updateResendPeriod now w)) =
     (if g_nextResendPeriod w = 0 then mPrevAxes (g_finalState w) else mAxes (g_finalState w))"
  "g_nextResendPeriod (updateResendPeriod now w) =
     (if g_nextResendPeriod w = 0 then FIRST_RESEND_PERIOD
      else g_nextResendPeriod w * RESEND_EXPANSION_RATE)"
  by (simp_all add: updateResendPeriod_def Let_def)

lemma updateResendPeriod_merged: "merged_axis (updateResendPeriod now w) j = merged_axis w j"
  by (simp add: merged_axis_def summed_axis_def Let_def updateResendPeriod_fields)

lemma updateResendPeriod_changed:
  "final_state_changed (updateResendPeriod now w) = final_state_changed w"
  by (simp add: final_state_changed_def merged_buttons_def updateResendPeriod_fields
      updateResendPeriod_merged)

lemma FIRST_RESEND_PERIOD_value: "FIRST_RESEND_PERIOD = 100000000"
  by (simp add: FIRST_RESEND_PERIOD_def MSEC_PER_NSEC_def)

text \<open>
  C2: a change of the clamped value of axis \<open>i\<close> is merged (the resend period becomes 0),
  then the state is sent (\<open>updateResendPeriod\<close>): \<open>prevAxes\<close> for that axis still holds the
  value published before the change. With nothing further changing, the next merge leaves
  the final state as it is, the period is not 0, and after the second send \<open>prevAxes\<close>
  equals the current axes.
\<close>

theorem C2_prevAxes_after_sends:
  assumes "wf_World w" and "i < NUM_AXES"
    and "scast (mAxes (g_finalState w) ! i) \<noteq> clamp_axis (summed_axis w i)"
  shows "let w1 = computeFinalState w; w2 = updateResendPeriod t1 w1;
             w3 = computeFinalState w2; w4 = updateResendPeriod t2 w3
         in g_nextResendPeriod w1 = 0 \<and>
            mAxes (g_finalState w2) ! i = ucast (clamp_axis (summed_axis w i)) \<and>
            mPrevAxes (g_finalState w2) ! i = mAxes (g_finalState w) ! i \<and>
            g_nextResendPeriod w3 \<noteq> 0 \<and>
            mAxes (g_finalState w3) = mAxes (g_finalState w2) \<and>
            mPrevAxes (g_finalState w4) = mAxes (g_finalState w4)"
proof -
  let ?w1 = "computeFinalState w"
  let ?w2 = "updateResendPeriod t1 ?w1"
  let ?w3 = "computeFinalState ?w2"
  let ?w4 = "updateResendPeriod t2 ?w3"
  have ch: "mAxes (g_finalState w) ! i \<noteq> merged_axis w i"
    using assms(3) by (simp add: axis_changed_iff)
  have "i \<in> set [0..<NUM_AXES]" using assms(2) by simp
  with ch have "final_state_changed w"
    unfolding final_state_changed_def by blast
  then have p1: "g_nextResendPeriod ?w1 = 0"
    by (rule computeFinalState_period_changed)
  have a2: "mAxes (g_finalState ?w2) ! i = merged_axis w i"
    using assms(1,2) by (simp add: updateResendPeriod_fields computeFinalState_axes)
  have pr2: "mPrevAxes (g_finalState ?w2) ! i = mAxes (g_finalState w) ! i"
    using assms(1,2) ch p1 by (simp add: updateResendPeriod_fields computeFinalState_prev)
  have p2: "g_nextResendPeriod ?w2 = FIRST_RESEND_PERIOD"
    using p1 by (simp add: updateResendPeriod_fields)
  have "\<not> final_state_changed ?w1"
    using assms(1) by (rule computeFinalState_settled)
  then have "\<not> final_state_changed ?w2"
    by (simp add: updateResendPeriod_changed)
  then have same: "?w3 = ?w2"
    by (rule computeFinalState_unchanged)
  have p3: "g_nextResendPeriod ?w3 \<noteq> 0"
    using p2 same by (simp add: FIRST_RESEND_PERIOD_value)
  have pr4: "mPrevAxes (g_finalState ?w4) = mAxes (g_finalState ?w4)"
    using p3 by (simp add: updateResendPeriod_fields)
  show ?thesis
    unfolding Let_def using p1 a2 pr2 p3 same pr4 by (simp add: merged_axis_def)
qed

text \<open>
  C3: a send with resend period 0 sets the period to the base of 100 ms (in nanoseconds);
  a send with a period other than 0 multiplies it by 10 (in U64 arithmetic); so three
  sends in a row with no change between them, starting from period 0, give 100 ms,
  1000 ms and 10000 ms; and a merge that detects a change (button mask or a clamped axis
  differing from the published final state) sets the period to 0 whatever it was.
\<close>

theorem C3_resend_backoff:
  "(g_nextResendPeriod w = 0 \<longrightarrow>
      g_nextResendPeriod (updateResendPeriod now w) = 100000000) \<and>
   (g_nextResendPeriod w \<noteq> 0 \<longrightarrow>
      g_nextResendPeriod (updateResendPeriod now w) = g_nextResendPeriod w * 10) \<and>
   (g_nextResendPeriod w = 0 \<and> \<not> final_state_changed w \<longrightarrow>
      (let w1 = updateResendPeriod t1 w;
           w2 = updateResendPeriod t2 (computeFinalState w1);
           w3 = updateResendPeriod t3 (computeFinalState w2)
       in g_nextResendPeriod w1 = 100000000 \<and>
          g_nextResendPeriod w2 = 1000000000 \<and>
          g_nextResendPeriod w3 = 10000000000)) \<and>
   (final_state_changed w \<longrightarrow> g_nextResendPeriod (computeFinalState w) = 0)"
proof -
  have a: "g_nextResendPeriod v = 0 \<Longrightarrow>
      g_nextResendPeriod (updateResendPeriod t v) = 100000000" for v t
    by (simp add: updateResendPeriod_fields FIRST_RESEND_PERIOD_value)
  have b: "g_nextResendPeriod v \<noteq> 0 \<Longrightarrow>
      g_nextResendPeriod (updateResendPeriod t v) = g_nextResendPeriod v * 10" for v t
    by (simp add: updateResendPeriod_fields RESEND_EXPANSION_RATE_def)
  have c: "g_nextResendPeriod (updateResendPeriod t3
             (computeFinalState (updateResendPeriod t2
               (computeFinalState (updateResendPeriod t1 w))))) = 10000000000 \<and>
           g_nextResendPeriod (updateResendPeriod t2
               (computeFinalState (updateResendPeriod t1 w))) = 1000000000"
    if z: "g_nextResendPeriod w = 0" and n: "\<not> final_state_changed w"
  proof -
    let ?w1 = "updateResendPeriod t1 w"
    let ?w2 = "updateResendPeriod t2 (computeFinalState ?w1)"
    have p1: "g_nextResendPeriod ?w1 = 100000000" using z by (rule a)
    have n1: "\<not> final_state_changed ?w1"
      using n by (simp add: updateResendPeriod_changed)
    then have s1: "computeFinalState ?w1 = ?w1"
      by (rule computeFinalState_unchanged)
    have p2: "g_nextResendPeriod ?w2 = 1000000000"
      using b [of ?w1 t2] p1 s1 by simp
    have n2: "\<not> final_state_changed ?w2"
      using n1 s1 by (simp add: updateResendPeriod_changed)
    then have s2: "computeFinalState ?w2 = ?w2"
      by (rule computeFinalState_unchanged)
    have "g_nextResendPeriod (updateResendPeriod t3 (computeFinalState ?w2)) = 10000000000"
      using b [of ?w2 t3] p2 s2 by simp
    with p2 show ?thesis by simp
  qed
  show ?thesis
    using a [of w now] a [of w t1] b [of w now] c computeFinalState_period_changed [of w]
    by (simp add: Let_def)
qed

text \<open>
  C4: after \<open>computeFinalState\<close> the final button mask is the accumulated device mask,
  with the external buttons OR-ed in exactly when the translate flag is set; and whenever
  the new mask differs from the mask published before, the resend period is 0.
\<close>

theorem C4_final_buttons:
  "mButtons (g_finalState (computeFinalState w)) =
     (if g_translateAgentActions w
      then mButtonAccumulator w OR mButtons (mExternalState w)
      else mButtonAccumulator w) \<and>
   (mButtons (g_finalState (computeFinalState w)) \<noteq> mButtons (g_finalState w) \<longrightarrow>
      g_nextResendPeriod (computeFinalState w) = 0)"
proof -
  have 1: "mButtons (g_finalState (computeFinalState w)) = merged_buttons w"
    by (rule computeFinalState_buttons_eq)
  have "g_nextResendPeriod (computeFinalState w) = 0"
    if "merged_buttons w \<noteq> mButtons (g_finalState w)"
  proof -
    from that have "final_state_changed w"
      unfolding final_state_changed_def by auto
    then show ?thesis by (rule computeFinalState_period_changed)
  qed
  with 1 show ?thesis by (simp add: merged_buttons_def)
qed

lemma sint_summed_axis:
  assumes "s = sint (mAxesAccumulator w ! i) +
             (if g_translateAgentActions w then sint (mAxes (mExternalState w) ! i) else 0)"
    and "- 2147483648 \<le> s" and "s \<le> 2147483647"
  shows "sint (summed_axis w i) = s"
proof (cases "g_translateAgentActions w")
  case False
  then show ?thesis using assms(1) by (simp add: summed_axis_def)
next
  case True
  let ?a = "mAxesAccumulator w ! i"
  let ?e = "mAxes (mExternalState w) ! i"
  have e: "sint (scast ?e :: S32) = sint ?e"
    by (rule sint_up_scast) (simp add: is_up)
  have "sint (?a + scast ?e) = signed_take_bit 31 (sint ?a + sint ?e)"
    by (simp add: sint_word_ariths e)
  also have "\<dots> = sint ?a + sint ?e"
    using assms True by (intro signed_take_bit_int_eq_self) simp_all
  finally show ?thesis using assms(1) True by (simp add: summed_axis_def)
qed

text \<open>
  C5: for each of the six axes, the merged final value is the accumulated device sum,
  plus the external value when the translate flag is set, clamped to [-32768, 32767]
  (the sum \<open>s\<close> being one that S32 holds, as the code adds in S32). A sum already in
  range is left unchanged; a sum out of range becomes exactly -32768 or 32767.
\<close>

theorem C5_merged_axis_clamped:
  assumes "wf_World w" and "i < NUM_AXES"
    and "s = sint (mAxesAccumulator w ! i) +
             (if g_translateAgentActions w then sint (mAxes (mExternalState w) ! i) else 0)"
    and "- 2147483648 \<le> s" and "s \<le> 2147483647"
  shows "sint (mAxes (g_finalState (computeFinalState w)) ! i) = min (max s (- 32768)) 32767 \<and>
         (- 32768 \<le> s \<and> s \<le> 32767 \<longrightarrow>
            sint (mAxes (g_finalState (computeFinalState w)) ! i) = s) \<and>
         (s < - 32768 \<longrightarrow> sint (mAxes (g_finalState (computeFinalState w)) ! i) = - 32768) \<and>
         (32767 < s \<longrightarrow> sint (mAxes (g_finalState (computeFinalState w)) ! i) = 32767)"
proof -
  have "sint (mAxes (g_finalState (computeFinalState w)) ! i) = sint (merged_axis w i)"
    using assms(1,2) by (simp add: computeFinalState_axes)
  also have "\<dots> = min (max (sint (summed_axis w i)) (- 32768)) 32767"
    by (rule sint_merged_axis)
  also have "sint (summed_axis w i) = s"
    using assms(3,4,5) by (rule sint_summed_axis)
  finally have "sint (mAxes (g_finalState (computeFinalState w)) ! i)
      = min (max s (- 32768)) 32767" .
  then show ?thesis by auto
qed

lemmas example_defs = example_world_def World_init_def State_init_def NUM_AXES_def
  wf_World_def summed_axis_def clamp_axis_def

theorem C2_prevAxes_after_sends_witness:
  "wf_World example_world \<and> (1::nat) < NUM_AXES \<and>
   scast (mAxes (g_finalState example_world) ! 1) \<noteq> clamp_axis (summed_axis example_world 1) \<and>
   (let w1 = computeFinalState example_world; w2 = updateResendPeriod 1000 w1;
        w3 = computeFinalState w2; w4 = updateResendPeriod 2000 w3
    in mAxes (g_finalState w2) ! 1 = 19999 \<and>
       mPrevAxes (g_finalState w2) ! 1 = 0 \<and>
       mPrevAxes (g_finalState w4) = mAxes (g_finalState w4))"
  using C2_prevAxes_after_sends [of example_world 1 1000 2000]
  by (simp add: example_defs Let_def)

theorem C3_resend_backoff_witness:
  "g_nextResendPeriod (World_init\<lparr>g_nextResendPeriod := 0\<rparr>) = 0 \<and>
   \<not> final_state_changed (World_init\<lparr>g_nextResendPeriod := 0\<rparr>) \<and>
   g_nextResendPeriod (updateResendPeriod 3
     (computeFinalState (updateResendPeriod 2
       (computeFinalState (updateResendPeriod 1 (World_init\<lparr>g_nextResendPeriod := 0\<rparr>))))))
     = 10000000000 \<and>
   g_nextResendPeriod World_init \<noteq> 0 \<and>
   g_nextResendPeriod (updateResendPeriod 1 World_init) = 1000000000 \<and>
   final_state_changed example_world \<and>
   g_nextResendPeriod (computeFinalState example_world) = 0"
  using C3_resend_backoff [of "World_init\<lparr>g_nextResendPeriod := 0\<rparr>" 1 1 2 3]
    C3_resend_backoff [of World_init 1 1 2 3]
    C3_resend_backoff [of example_world 1 1 2 3]
  by (simp add: example_defs Let_def final_state_changed_def merged_buttons_def merged_axis_def
      FIRST_RESEND_PERIOD_def MSEC_PER_NSEC_def)

theorem C4_final_buttons_witness:
  "mButtons (g_finalState (computeFinalState example_world)) = 7 \<and>
   mButtons (g_finalState (computeFinalState example_world))
     \<noteq> mButtons (g_finalState example_world) \<and>
   g_nextResendPeriod (computeFinalState example_world) = 0 \<and>
   mButtons (g_finalState (computeFinalState
      (example_world\<lparr>g_translateAgentActions := False\<rparr>))) = 5"
  using C4_final_buttons [of example_world]
    C4_final_buttons [of "example_world\<lparr>g_translateAgentActions := False\<rparr>"]
  by (simp add: example_defs)

theorem C5_merged_axis_clamped_witness:
  "wf_World example_world \<and> (1::nat) < NUM_AXES \<and> (4::nat) < NUM_AXES \<and>
   sint (mAxesAccumulator example_world ! 1) +
     (if g_translateAgentActions example_world
      then sint (mAxes (mExternalState example_world) ! 1) else 0) = 19999 \<and>
   sint (mAxesAccumulator example_world ! 4) +
     (if g_translateAgentActions example_world
      then sint (mAxes (mExternalState example_world) ! 4) else 0) = 40000 \<and>
   sint (mAxes (g_finalState (computeFinalState example_world)) ! 1) = 19999 \<and>
   sint (mAxes (g_finalState (computeFinalState example_world)) ! 4) = 32767"
  using C5_merged_axis_clamped [of example_world 1 19999]
    C5_merged_axis_clamped [of example_world 4 40000]
  by (simp add: example_defs)

section \<open>Channel names and flycam inputs\<close>

lemma c_str_prefix:
  "length ys = n \<Longrightarrow> \<forall>c \<in> set ys. c \<noteq> CHR 0x00 \<Longrightarrow>
   (take n (c_str xs) = ys) = (take n xs = ys)"
proof (induction xs arbitrary: n ys)
  case Nil
  then show ?case by (simp add: c_str_def)
next
  case (Cons x xs)
  show ?case
  proof (cases ys)
    case Nil
    then show ?thesis using Cons.prems by simp
  next
    case (Cons y ys')
    then obtain m where n: "n = Suc m" "length ys' = m"
      using Cons.prems(1) by auto
    have y: "y \<noteq> CHR 0x00" "\<forall>c \<in> set ys'. c \<noteq> CHR 0x00"
      using Cons.prems(2) Cons by simp_all
    have IH: "(take m (c_str xs) = ys') = (take m xs = ys')"
      using Cons.IH [OF n(2) y(2)] .
    show ?thesis
    proof (cases "x = CHR 0x00")
      case True
      then show ?thesis using y n Cons by (auto simp: c_str_def)
    next
      case False
      then show ?thesis using IH n Cons by (simp add: c_str_def)
    qed
  qed
qed

lemma is_AXIS: "\<not> strncmp_differs (c_str name) ''AXIS_'' 5 \<longleftrightarrow> take 5 name = ''AXIS_''"
  using c_str_prefix [of "''AXIS_''" 5 name] by (simp add: strncmp_differs_def)

lemma is_BUTTON: "\<not> strncmp_differs (c_str name) ''BUTTON_'' 7 \<longleftrightarrow> take 7 name = ''BUTTON_''"
  using c_str_prefix [of "''BUTTON_''" 7 name] by (simp add: strncmp_differs_def)

lemma take_eq_length: "take n xs = ys \<Longrightarrow> length ys = n \<Longrightarrow> n \<le> length xs"
  by (metis length_take min.absorb_iff2 min.commute)

lemma getChannelByName_AXIS:
  assumes "take 5 name = ''AXIS_''"
  shows "getChannelByName name =
     Some \<lparr> mType = TYPE_AXIS, mSign = (if last name = CHR ''-'' then - 1 else 1),
            mIndex = word_of_int (atoi (c_str (take 1 (drop 5 name)))) \<rparr>"
proof -
  have "5 \<le> length name"
    using assms by (rule take_eq_length) simp
  then have "substr name 5 1 = Some (take 1 (drop 5 name))" "string_back name = Some (last name)"
    by (auto simp: substr_def string_back_def)
  then show ?thesis
    using assms by (simp add: getChannelByName_def is_AXIS InputChannel_default_def)
qed

lemma getChannelByName_BUTTON:
  assumes "take 7 name = ''BUTTON_''"
  shows "getChannelByName name =
     Some \<lparr> mType = TYPE_BUTTON, mSign = 0,
            mIndex = word_of_int (atoi (c_str (take 2 (drop 7 name)))) \<rparr>"
proof -
  have "7 \<le> length name"
    using assms by (rule take_eq_length) simp
  then have "substr name 7 2 = Some (take 2 (drop 7 name))"
    by (auto simp: substr_def)
  moreover have "take 5 name \<noteq> ''AXIS_''"
  proof
    assume "take 5 name = ''AXIS_''"
    then have "take 5 (take 7 name) = ''AXIS_''" by simp
    then show False by (simp only: assms) simp
  qed
  ultimately show ?thesis
    using assms by (simp add: getChannelByName_def is_AXIS is_BUTTON InputChannel_default_def)
qed

lemma getChannelByName_other:
  assumes "take 5 name \<noteq> ''AXIS_''" "take 7 name \<noteq> ''BUTTON_''"
  shows "getChannelByName name = Some InputChannel_default"
  using assms by (simp add: getChannelByName_def is_AXIS is_BUTTON)

lemma isdigit_c_facts:
  assumes "isdigit_c d"
  shows "d \<noteq> CHR 0x00" "\<not> isspace_c d" "d \<noteq> CHR ''-''" "d \<noteq> CHR ''+''"
  using assms by (auto simp: isdigit_c_def isspace_c_def)

lemma atoi_one_digit: "isdigit_c d \<Longrightarrow> atoi (c_str [d]) = digit_value d"
  by (simp add: atoi_def c_str_def isdigit_c_facts)

lemma atoi_two_digits:
  "isdigit_c d \<Longrightarrow> isdigit_c e \<Longrightarrow> atoi (c_str [d, e]) = 10 * digit_value d + digit_value e"
  by (simp add: atoi_def c_str_def isdigit_c_facts)

text \<open>
  C6 (as stated): every string that is not of the form \<open>AXIS_<digit>[+|-]\<close> or
  \<open>BUTTON_<1-2 digits>\<close> parses to the none channel. The parser only tests the prefix:
  "AXIS_left" is an axis channel, index 0, positive.
\<close>

theorem C6_getChannelByName_counterexample:
  "getChannelByName ''AXIS_left'' = Some \<lparr> mType = TYPE_AXIS, mSign = 1, mIndex = 0 \<rparr> \<and>
   map_option isNone (getChannelByName ''AXIS_left'') = Some False"
  by (simp add: getChannelByName_AXIS isNone_def atoi_def c_str_def isspace_c_def isdigit_c_def)

text \<open>
  C6 (amended): \<open>AXIS_<digit>\<close>, with an optional trailing + or - (positive without it),
  parses to the axis channel of that digit, and \<open>BUTTON_<1-2 digits>\<close> to the button
  channel of that number. Every string that starts with "AXIS_" parses to an axis channel
  (its index what \<open>atoi\<close> reads in the one character after the prefix, its sign negative
  exactly when the last character is -), every string that starts with "BUTTON_" to a
  button channel (its index what \<open>atoi\<close> reads in the two characters after the prefix),
  and every other string to the none channel. The function never raises.
\<close>

theorem C6_getChannelByName:
  "(isdigit_c d \<longrightarrow>
      getChannelByName (''AXIS_'' @ [d]) =
        Some \<lparr> mType = TYPE_AXIS, mSign = 1, mIndex = word_of_int (digit_value d) \<rparr> \<and>
      getChannelByName (''AXIS_'' @ [d] @ ''+'') =
        Some \<lparr> mType = TYPE_AXIS, mSign = 1, mIndex = word_of_int (digit_value d) \<rparr> \<and>
      getChannelByName (''AXIS_'' @ [d] @ ''-'') =
        Some \<lparr> mType = TYPE_AXIS, mSign = - 1, mIndex = word_of_int (digit_value d) \<rparr> \<and>
      map_option (\<lambda>c. (mType c, mIndex c)) (getChannelByName (''BUTTON_'' @ [d])) =
        Some (TYPE_BUTTON, word_of_int (digit_value d))) \<and>
   (isdigit_c d \<and> isdigit_c e \<longrightarrow>
      map_option (\<lambda>c. (mType c, mIndex c)) (getChannelByName (''BUTTON_'' @ [d, e])) =
        Some (TYPE_BUTTON, word_of_int (10 * digit_value d + digit_value e))) \<and>
   (take 5 name = ''AXIS_'' \<longrightarrow>
      getChannelByName name =
        Some \<lparr> mType = TYPE_AXIS, mSign = (if last name = CHR ''-'' then - 1 else 1),
               mIndex = word_of_int (atoi (c_str (take 1 (drop 5 name)))) \<rparr>) \<and>
   (take 7 name = ''BUTTON_'' \<longrightarrow>
      map_option (\<lambda>c. (mType c, mIndex c)) (getChannelByName name) =
        Some (TYPE_BUTTON, word_of_int (atoi (c_str (take 2 (drop 7 name)))))) \<and>
   (take 5 name \<noteq> ''AXIS_'' \<and> take 7 name \<noteq> ''BUTTON_'' \<longrightarrow>
      map_option isNone (getChannelByName name) = Some True) \<and>
   getChannelByName name \<noteq> None"
proof -
  have ax: "getChannelByName (''AXIS_'' @ [d]) =
        Some \<lparr> mType = TYPE_AXIS, mSign = 1, mIndex = word_of_int (digit_value d) \<rparr>"
    "getChannelByName (''AXIS_'' @ [d] @ ''+'') =
        Some \<lparr> mType = TYPE_AXIS, mSign = 1, mIndex = word_of_int (digit_value d) \<rparr>"
    "getChannelByName (''AXIS_'' @ [d] @ ''-'') =
        Some \<lparr> mType = TYPE_AXIS, mSign = - 1, mIndex = word_of_int (digit_value d) \<rparr>"
    if "isdigit_c d"
    using that isdigit_c_facts [OF that]
    by (simp_all add: getChannelByName_AXIS atoi_one_digit)
  have b1: "map_option (\<lambda>c. (mType c, mIndex c)) (getChannelByName (''BUTTON_'' @ [d])) =
        Some (TYPE_BUTTON, word_of_int (digit_value d))"
    if "isdigit_c d"
    using that by (simp add: getChannelByName_BUTTON atoi_one_digit)
  have b2: "map_option (\<lambda>c. (mType c, mIndex c)) (getChannelByName (''BUTTON_'' @ [d, e])) =
        Some (TYPE_BUTTON, word_of_int (10 * digit_value d + digit_value e))"
    if "isdigit_c d" "isdigit_c e"
    using that by (simp add: getChannelByName_BUTTON atoi_two_digits)
  have t1: "getChannelByName name =
        Some \<lparr> mType = TYPE_AXIS, mSign = (if last name = CHR ''-'' then - 1 else 1),
               mIndex = word_of_int (atoi (c_str (take 1 (drop 5 name)))) \<rparr>"
    if "take 5 name = ''AXIS_''"
    using that by (simp add: getChannelByName_AXIS)
  have t2: "map_option (\<lambda>c. (mType c, mIndex c)) (getChannelByName name) =
        Some (TYPE_BUTTON, word_of_int (atoi (c_str (take 2 (drop 7 name)))))"
    if "take 7 name = ''BUTTON_''"
    using that by (simp add: getChannelByName_BUTTON)
  have t3: "map_option isNone (getChannelByName name) = Some True"
    if "take 5 name \<noteq> ''AXIS_''" "take 7 name \<noteq> ''BUTTON_''"
    using that by (simp add: getChannelByName_other isNone_def InputChannel_default_def)
  have t4: "getChannelByName name \<noteq> None"
    using t1 t2 t3 by (cases "take 5 name = ''AXIS_''"; cases "take 7 name = ''BUTTON_''") auto
  show ?thesis
    using ax b1 b2 t1 t2 t3 t4 by blast
qed

theorem C6_getChannelByName_witness:
  "isdigit_c CHR ''1'' \<and> isdigit_c CHR ''5'' \<and>
   getChannelByName ''AXIS_1'' = Some \<lparr> mType = TYPE_AXIS, mSign = 1, mIndex = 1 \<rparr> \<and>
   getChannelByName ''AXIS_1+'' = Some \<lparr> mType = TYPE_AXIS, mSign = 1, mIndex = 1 \<rparr> \<and>
   getChannelByName ''AXIS_1-'' = Some \<lparr> mType = TYPE_AXIS, mSign = - 1, mIndex = 1 \<rparr> \<and>
   map_option (\<lambda>c. (mType c, mIndex c)) (getChannelByName ''BUTTON_1'') = Some (TYPE_BUTTON, 1) \<and>
   map_option (\<lambda>c. (mType c, mIndex c)) (getChannelByName ''BUTTON_15'') = Some (TYPE_BUTTON, 15) \<and>
   take 5 ''AXIS_left'' = ''AXIS_'' \<and>
   getChannelByName ''AXIS_left'' = Some \<lparr> mType = TYPE_AXIS, mSign = 1, mIndex = 0 \<rparr> \<and>
   take 7 ''BUTTON_A'' = ''BUTTON_'' \<and>
   map_option (\<lambda>c. (mType c, mIndex c)) (getChannelByName ''BUTTON_A'') = Some (TYPE_BUTTON, 0) \<and>
   take 5 ''NONE'' \<noteq> ''AXIS_'' \<and> take 7 ''NONE'' \<noteq> ''BUTTON_'' \<and>
   map_option isNone (getChannelByName ''NONE'') = Some True"
  using C6_getChannelByName [of "CHR ''1''" "CHR ''5''" "''AXIS_left''"]
    C6_getChannelByName [of "CHR ''1''" "CHR ''5''" "''BUTTON_A''"]
    C6_getChannelByName [of "CHR ''1''" "CHR ''5''" "''NONE''"]
  by (simp add: isdigit_c_def digit_value_def atoi_def c_str_def isspace_c_def)

lemma clamp_S16_eq: "clamp_S16 x = word_of_int (min (max (sint x) (- 32768)) 32767)"
proof -
  let ?c = "min (max (sint x) (- 32768)) 32767"
  have "sint (word_of_int ?c :: S32) = ?c"
    by (simp only: sint_sbintrunc') (rule signed_take_bit_int_eq_self; simp)
  then show ?thesis by (simp only: clamp_S16_def scast_eq)
qed

lemma sint_clamp_S16: "sint (clamp_S16 x) = min (max (sint x) (- 32768)) 32767"
  unfolding clamp_S16_eq by (rule sint_word_of_int_S16) simp_all

lemma sint_S32_diff:
  "- 2147483648 \<le> sint (a :: S32) - sint b \<Longrightarrow> sint a - sint b \<le> 2147483647 \<Longrightarrow>
   sint (a - b) = sint a - sint b"
proof -
  assume r: "- 2147483648 \<le> sint a - sint b" "sint a - sint b \<le> 2147483647"
  have "sint (a - b) = signed_take_bit 31 (sint a - sint b)"
    by (simp add: sint_word_ariths)
  also have "\<dots> = sint a - sint b"
    using r by (intro signed_take_bit_int_eq_self) simp_all
  finally show ?thesis .
qed

lemma sint_S32_negate:
  "- 2147483648 < sint (a :: S32) \<Longrightarrow> sint (a * (- 1)) = - sint a"
proof -
  assume r: "- 2147483648 < sint a"
  have u: "sint a \<le> 2147483647"
    using sint_lt [of a] by simp
  have "sint (a * (- 1)) = sint (- a)" by simp
  also have "\<dots> = signed_take_bit 31 (- sint a)"
    by (simp add: sint_word_ariths)
  also have "\<dots> = - sint a"
    using r u by (intro signed_take_bit_int_eq_self) simp_all
  finally show ?thesis .
qed

lemma flycam_axis_trigger:
  assumes "mIndex channel = AXIS_TRIGGERLEFT \<or> mIndex channel = AXIS_TRIGGERRIGHT"
    and "- 2147483648 < sint (acc ! 4) - sint (acc ! 5)"
    and "sint (acc ! 4) - sint (acc ! 5) \<le> 2147483647"
  shows "\<exists>a. flycam_axis acc channel = Some a \<and>
     sint a = min (max (if mIndex channel = AXIS_TRIGGERRIGHT
                        then - (sint (acc ! 4) - sint (acc ! 5))
                        else sint (acc ! 4) - sint (acc ! 5)) (- 32768)) 32767"
proof -
  have d: "sint (acc ! 4 - acc ! 5) = sint (acc ! 4) - sint (acc ! 5)"
    using assms(2,3) by (intro sint_S32_diff) simp_all
  have n: "sint ((acc ! 4 - acc ! 5) * (- 1)) = - (sint (acc ! 4) - sint (acc ! 5))"
    using assms(2) d sint_S32_negate [of "acc ! 4 - acc ! 5"] by simp
  show ?thesis
    using assms(1) d n
    by (auto simp: flycam_axis_def Let_def AXIS_TRIGGERLEFT_def AXIS_TRIGGERRIGHT_def
        sint_clamp_S16 simp del: mult_minus1_right)
qed

text \<open>
  C7 (as stated): with the left trigger accumulated at 10000 and the right at 3000, the
  "rise" output is about 7000/32767 times the channel sign. The default "rise" channel is
  the right trigger with sign +1, for which the tied value is negated: the output is
  -7000/32768, negative.
\<close>

theorem C7_flycam_rise_counterexample:
  "getFlycamInputs [0, 0, 0, 0, 10000, 3000] default_flycam_channels [] =
     Some [0, 0, - (7000 / 32768), 0, 0, 0] \<and>
   mIndex (default_flycam_channels ! 2) = AXIS_TRIGGERRIGHT \<and>
   mSign (default_flycam_channels ! 2) = 1 \<and>
   (- (7000 / 32768) :: real) < 0"
  by (simp add: getFlycamInputs_def flycam_input_def flycam_axis_def default_flycam_channels_def
      InputChannel_default_def clamp_S16_def Let_def
      AXIS_LEFTX_def AXIS_LEFTY_def AXIS_RIGHTX_def AXIS_RIGHTY_def
      AXIS_TRIGGERLEFT_def AXIS_TRIGGERRIGHT_def)

text \<open>
  C7 (amended): a flycam channel whose index is a trigger outputs the tied value, left
  trigger minus right trigger, negated when the index is the right trigger, clamped to
  [-32768, 32767], divided by 32767 if positive and by 32768 otherwise, times the channel
  sign. With left at 10000 and right at 3000 that is 7000/32767 times the sign for a
  channel on the left trigger, and -7000/32768 times the sign for one on the right trigger
  (the default "rise").
\<close>

theorem C7_flycam_tied_triggers:
  assumes "length acc = NUM_AXES"
    and "mIndex channel = AXIS_TRIGGERLEFT \<or> mIndex channel = AXIS_TRIGGERRIGHT"
    and "- 2147483648 < sint (acc ! 4) - sint (acc ! 5)"
    and "sint (acc ! 4) - sint (acc ! 5) \<le> 2147483647"
  shows "flycam_input acc channel =
           Some (let tied = sint (acc ! 4) - sint (acc ! 5);
                     t = (if mIndex channel = AXIS_TRIGGERRIGHT then - tied else tied);
                     a = min (max t (- 32768)) 32767
                 in real_of_int a / (if 0 < a then 32767 else 32768)
                      * real_of_int (mSign channel)) \<and>
         (acc ! 4 = 10000 \<and> acc ! 5 = 3000 \<longrightarrow>
            flycam_input acc channel =
              Some (if mIndex channel = AXIS_TRIGGERRIGHT
                    then - (7000 / 32768) * real_of_int (mSign channel)
                    else 7000 / 32767 * real_of_int (mSign channel)))"
proof -
  obtain a where a: "flycam_axis acc channel = Some a"
    "sint a = min (max (if mIndex channel = AXIS_TRIGGERRIGHT
                        then - (sint (acc ! 4) - sint (acc ! 5))
                        else sint (acc ! 4) - sint (acc ! 5)) (- 32768)) 32767"
    using flycam_axis_trigger [OF assms(2,3,4)] by blast
  have 1: "flycam_input acc channel =
           Some (let tied = sint (acc ! 4) - sint (acc ! 5);
                     t = (if mIndex channel = AXIS_TRIGGERRIGHT then - tied else tied);
                     a = min (max t (- 32768)) 32767
                 in real_of_int a / (if 0 < a then 32767 else 32768)
                      * real_of_int (mSign channel))"
    unfolding flycam_input_def a(1) Let_def a(2) [symmetric] by simp
  have 2: "flycam_input acc channel =
              Some (if mIndex channel = AXIS_TRIGGERRIGHT
                    then - (7000 / 32768) * real_of_int (mSign channel)
                    else 7000 / 32767 * real_of_int (mSign channel))"
    if "acc ! 4 = 10000" "acc ! 5 = 3000"
    unfolding 1 using that by (simp add: Let_def)
  from 1 2 show ?thesis by blast
qed

theorem C7_flycam_tied_triggers_witness:
  "length [0, 0, 0, 0, 10000, 3000 :: S32] = NUM_AXES \<and>
   mIndex (default_flycam_channels ! 2) = AXIS_TRIGGERRIGHT \<and>
   flycam_input [0, 0, 0, 0, 10000, 3000] (default_flycam_channels ! 2) = Some (- (7000 / 32768)) \<and>
   flycam_input [0, 0, 0, 0, 10000, 3000]
     \<lparr> mType = TYPE_AXIS, mSign = 1, mIndex = AXIS_TRIGGERLEFT \<rparr> = Some (7000 / 32767)"
  using C7_flycam_tied_triggers [of "[0, 0, 0, 0, 10000, 3000]" "default_flycam_channels ! 2"]
    C7_flycam_tied_triggers [of "[0, 0, 0, 0, 10000, 3000]"
      "\<lparr> mType = TYPE_AXIS, mSign = 1, mIndex = AXIS_TRIGGERLEFT \<rparr>"]
  by (simp add: NUM_AXES_def default_flycam_channels_def AXIS_TRIGGERLEFT_def
      AXIS_TRIGGERRIGHT_def)

section \<open>Action translation and settings\<close>

text \<open>Flags and states over a predicate on action names.\<close>

lemma fold_flags_covers:
  "msk AND acc = msk \<or> ((n, msk) \<in> set T \<and> P n) \<Longrightarrow>
   msk AND fold (\<lambda>(a, m) f. if P a then f OR m else f) T acc = (msk :: U32)"
proof (induction T arbitrary: acc)
  case Nil
  then show ?case by simp
next
  case (Cons e T)
  obtain a m where e: "e = (a, m)" by (cases e)
  have abs: "msk AND (acc OR msk) = msk"
    by (auto simp: bit_eq_iff bit_simps)
  have mono: "msk AND acc = msk \<Longrightarrow> msk AND (acc OR m) = msk"
    by (auto simp: bit_eq_iff bit_simps)
  show ?case
  proof (cases "msk AND acc = msk")
    case True
    then show ?thesis using Cons.IH [of "if P a then acc OR m else acc"] mono e by simp
  next
    case False
    with Cons.prems have in_T: "(n, msk) \<in> set (e # T)" "P n" by simp_all
    show ?thesis
    proof (cases "(n, msk) = e")
      case True
      then show ?thesis using Cons.IH [of "acc OR msk"] abs in_T e by simp
    next
      case False
      then have "(n, msk) \<in> set T" using in_T by simp
      then show ?thesis
        using Cons.IH [of "if P a then acc OR m else acc"] in_T e by simp
    qed
  qed
qed

lemma fold_flags_disjoint:
  "p AND acc = 0 \<Longrightarrow> \<forall>(a, m) \<in> set T. P a \<longrightarrow> p AND m = 0 \<Longrightarrow>
   p AND fold (\<lambda>(a, m) f. if P a then f OR m else f) T acc = (0 :: U32)"
proof (induction T arbitrary: acc)
  case Nil
  then show ?case by simp
next
  case (Cons e T)
  obtain a m where e: "e = (a, m)" by (cases e)
  have "p AND (if P a then acc OR m else acc) = 0"
    using Cons.prems e by (simp add: bit.conj_disj_distrib)
  moreover have "\<forall>(a, m) \<in> set T. P a \<longrightarrow> p AND m = 0"
    using Cons.prems(2) by simp
  ultimately show ?case using Cons.IH e by simp
qed

lemma single_bit_nonzero: "single_bit x \<Longrightarrow> x \<noteq> 0"
  by (auto simp: single_bit_def bit_eq_iff bit_simps)

lemma single_bit_disjoint:
  "single_bit x \<Longrightarrow> single_bit y \<Longrightarrow> x \<noteq> y \<Longrightarrow> x AND y = 0"
  by (auto simp: single_bit_def bit_eq_iff bit_simps)

lemma subset_test_iff:
  assumes "i < length T" and "T ! i = (n, msk :: U32)" and "p \<noteq> 0" and "p AND msk = p"
    and "\<forall>m \<in> set (map snd (take i T @ drop (Suc i) T)). p AND m = 0"
  shows "msk AND fold (\<lambda>(a, m) f. if P a then f OR m else f) T 0 = msk \<longleftrightarrow> P n"
proof
  have "(n, msk) \<in> set T"
    using assms(1,2) nth_mem [of i T] by simp
  moreover assume "P n"
  ultimately show "msk AND fold (\<lambda>(a, m) f. if P a then f OR m else f) T 0 = msk"
    using fold_flags_covers [of msk 0 n T P] by simp
next
  let ?F = "fold (\<lambda>(a, m) f. if P a then f OR m else f) T 0"
  assume sub: "msk AND ?F = msk"
  show "P n"
  proof (rule ccontr)
    assume np: "\<not> P n"
    have T: "T = take i T @ (n, msk) # drop (Suc i) T"
      using assms(1,2) id_take_nth_drop [of i T] by simp
    have "\<forall>(a, m) \<in> set T. P a \<longrightarrow> p AND m = 0"
    proof (clarify)
      fix a m
      assume am: "(a, m) \<in> set T" "P a"
      then have "(a, m) \<in> set (take i T @ drop (Suc i) T) \<or> (a, m) = (n, msk)"
        by (subst (asm) T) auto
      then have "(a, m) \<in> set (take i T @ drop (Suc i) T)"
        using am(2) np by auto
      then have "m \<in> set (map snd (take i T @ drop (Suc i) T))"
        by force
      then show "p AND m = 0"
        using assms(5) by blast
    qed
    then have "p AND ?F = 0"
      by (intro fold_flags_disjoint) simp_all
    moreover have "p AND (msk AND ?F) = (p AND msk) AND ?F"
      by (simp only: and.assoc)
    then have "p AND ?F = p AND (msk AND ?F)"
      using assms(4) by simp
    ultimately show False
      using sub assms(3,4) by simp
  qed
qed

lemma actionMasks_separate:
  assumes "agent_control_bits_ok cb" and "row < length (actionMasks cb)"
  shows "\<exists>p. p \<noteq> 0 \<and> p AND snd (actionMasks cb ! row) = p \<and>
           (\<forall>m \<in> set (map snd (take row (actionMasks cb) @ drop (Suc row) (actionMasks cb))).
              p AND m = 0)"
proof -
  have sb: "list_all single_bit (agent_control_list cb)"
    and ds: "distinct (agent_control_list cb)"
    using assms(1) by (simp_all add: agent_control_bits_ok_def)
  have nz: "x \<in> set (agent_control_list cb) \<Longrightarrow> x \<noteq> 0" for x
    using sb by (auto simp: list_all_iff single_bit_nonzero)
  have dj: "x AND y = 0"
    if "x \<in> set (agent_control_list cb)" "y \<in> set (agent_control_list cb)" "x \<noteq> y" for x y
    using sb that by (auto simp: list_all_iff single_bit_disjoint)
  have dj2: "x AND y = 0"
    if "x \<in> set (agent_control_list cb)" "y \<in> set (agent_control_list cb)" "y \<noteq> x" for x y
    using dj [of x y] that by auto
  note dj2 = dj2 [unfolded agent_control_list_def]
  note sb = sb [unfolded agent_control_list_def, simplified]
  note nz = nz [unfolded agent_control_list_def]
  note dj = dj [unfolded agent_control_list_def]
  note ds = ds [unfolded agent_control_list_def, simplified]
  have "row < 14" using assms(2) by (simp add: actionMasks_def)
  then have "row = 0 \<or> row = 1 \<or> row = 2 \<or> row = 3 \<or> row = 4 \<or> row = 5 \<or> row = 6 \<or> row = 7 \<or> row = 8 \<or> row = 9 \<or> row = 10 \<or> row = 11 \<or> row = 12 \<or> row = 13"
    by arith
  then consider "row = 0" | "row = 1" | "row = 2" | "row = 3" | "row = 4" | "row = 5" | "row = 6" | "row = 7" | "row = 8" | "row = 9" | "row = 10" | "row = 11" | "row = 12" | "row = 13"
    by blast
  then show ?thesis
  proof cases
    assume "row = 0"
    then show ?thesis
      using ds
      by (intro exI [of _ "AGENT_CONTROL_AT_POS cb"])
         (simp add: actionMasks_def nz dj dj2 bit.conj_disj_distrib)
  next
    assume "row = 1"
    then show ?thesis
      using ds
      by (intro exI [of _ "AGENT_CONTROL_AT_NEG cb"])
         (simp add: actionMasks_def nz dj dj2 bit.conj_disj_distrib)
  next
    assume "row = 2"
    then show ?thesis
      using ds
      by (intro exI [of _ "AGENT_CONTROL_LEFT_POS cb"])
         (simp add: actionMasks_def nz dj dj2 bit.conj_disj_distrib)
  next
    assume "row = 3"
    then show ?thesis
      using ds
      by (intro exI [of _ "AGENT_CONTROL_LEFT_NEG cb"])
         (simp add: actionMasks_def nz dj dj2 bit.conj_disj_distrib)
  next
    assume "row = 4"
    then show ?thesis
      using ds
      by (intro exI [of _ "AGENT_CONTROL_UP_POS cb"])
         (simp add: actionMasks_def nz dj dj2 bit.conj_disj_distrib)
  next
    assume "row = 5"
    then show ?thesis
      using ds
      by (intro exI [of _ "AGENT_CONTROL_UP_NEG cb"])
         (simp add: actionMasks_def nz dj dj2 bit.conj_disj_distrib)
  next
    assume "row = 6"
    then show ?thesis
      using ds
      by (intro exI [of _ "AGENT_CONTROL_YAW_POS cb"])
         (simp add: actionMasks_def nz dj dj2 bit.conj_disj_distrib)
  next
    assume "row = 7"
    then show ?thesis
      using ds
      by (intro exI [of _ "AGENT_CONTROL_YAW_NEG cb"])
         (simp add: actionMasks_def nz dj dj2 bit.conj_disj_distrib)
  next
    assume "row = 8"
    then show ?thesis
      using ds
      by (intro exI [of _ "AGENT_CONTROL_PITCH_POS cb"])
         (simp add: actionMasks_def nz dj dj2 bit.conj_disj_distrib)
  next
    assume "row = 9"
    then show ?thesis
      using ds
      by (intro exI [of _ "AGENT_CONTROL_PITCH_NEG cb"])
         (simp add: actionMasks_def nz dj dj2 bit.conj_disj_distrib)
  next
    assume "row = 10"
    then show ?thesis
      using ds
      by (intro exI [of _ "AGENT_CONTROL_STOP cb"])
         (simp add: actionMasks_def nz dj dj2 bit.conj_disj_distrib)
  next
    assume "row = 11"
    then show ?thesis
      using ds
      by (intro exI [of _ "AGENT_CONTROL_NUDGE_AT_POS cb"])
         (simp add: actionMasks_def nz dj dj2 bit.conj_disj_distrib)
  next
    assume "row = 12"
    then show ?thesis
      using ds
      by (intro exI [of _ "AGENT_CONTROL_FLY cb"])
         (simp add: actionMasks_def nz dj dj2 bit.conj_disj_distrib)
  next
    assume "row = 13"
    then show ?thesis
      using ds
      by (intro exI [of _ "AGENT_CONTROL_NUDGE_AT_NEG cb"])
         (simp add: actionMasks_def nz dj dj2 bit.conj_disj_distrib)
  qed
qed

lemma actionMasks_test:
  assumes "agent_control_bits_ok cb" and "(n, msk) \<in> set (actionMasks cb)"
  shows "msk AND fold (\<lambda>(a, m) f. if P a then f OR m else f) (actionMasks cb) 0 = msk \<longleftrightarrow> P n"
proof -
  obtain i where i: "i < length (actionMasks cb)" "actionMasks cb ! i = (n, msk)"
    using assms(2) by (auto simp: in_set_conv_nth)
  obtain p where p: "p \<noteq> 0" "p AND snd (actionMasks cb ! i) = p"
    "\<forall>m \<in> set (map snd (take i (actionMasks cb) @ drop (Suc i) (actionMasks cb))). p AND m = 0"
    using actionMasks_separate [OF assms(1) i(1)] by blast
  from p(2) i(2) have "p AND msk = p" by simp
  with i p(1) show ?thesis
    using p(3) by (rule subset_test_iff)
qed

lemma full_deflection_length:
  "length (mAxes (full_deflection channel st)) = length (mAxes st)"
  by (simp add: full_deflection_def split: ChannelType.split)

lemma bit_button: "bit (push_bit k 1 :: U32) b \<longleftrightarrow> b = k \<and> k < 32"
  by (auto simp: bit_simps)

lemma full_deflection_buttons:
  "bit (mButtons (full_deflection channel st)) b \<longleftrightarrow>
     bit (mButtons st) b \<or>
     (mType channel = TYPE_BUTTON \<and> unat (mIndex channel) = b \<and> b < NUM_BUTTONS)"
  by (auto simp: full_deflection_def bit_simps NUM_BUTTONS_def split: ChannelType.split)

lemma fold_deflect_buttons:
  "bit (mButtons (fold (\<lambda>(a, m) st. if P a then full_deflection (ch a) st else st) T st0)) b \<longleftrightarrow>
     bit (mButtons st0) b \<or>
     (\<exists>(a, m) \<in> set T. P a \<and> mType (ch a) = TYPE_BUTTON \<and> unat (mIndex (ch a)) = b \<and>
        b < NUM_BUTTONS)"
proof (induction T arbitrary: st0)
  case Nil
  then show ?case by simp
next
  case (Cons e T)
  obtain a m where e: "e = (a, m)" by (cases e)
  show ?case
    unfolding e by (auto simp: Cons.IH full_deflection_buttons)
qed

lemma full_deflection_axes:
  "i < length (mAxes st) \<Longrightarrow>
   mAxes (full_deflection channel st) ! i =
     (if mType channel = TYPE_AXIS \<and> unat (mIndex channel) = i \<and> i < NUM_AXES \<and>
         mSign channel \<noteq> 0
      then (if mSign channel < 0 then - 32768 else 32767)
      else mAxes st ! i)"
  by (auto simp: full_deflection_def split: ChannelType.split)

lemma fold_deflect_length:
  "length (mAxes (fold (\<lambda>(a, m) st. if P a then full_deflection (ch a) st else st) T st0)) =
     length (mAxes st0)"
proof (induction T arbitrary: st0)
  case Nil
  then show ?case by simp
next
  case (Cons e T)
  obtain a m where e: "e = (a, m)" by (cases e)
  show ?case
    unfolding e by (simp add: Cons.IH full_deflection_length)
qed

lemma fold_deflect_axes:
  assumes "\<forall>(a, m) \<in> set T. P a \<and> mType (ch a) = TYPE_AXIS \<longrightarrow>
             unat (mIndex (ch a)) < NUM_AXES \<and> mSign (ch a) \<noteq> 0 \<and>
             (if mSign (ch a) < 0 then - 32768 else 32767) = V (unat (mIndex (ch a)))"
    and "i < length (mAxes st0)"
  shows "mAxes (fold (\<lambda>(a, m) st. if P a then full_deflection (ch a) st else st) T st0) ! i =
     (if \<exists>(a, m) \<in> set T. P a \<and> mType (ch a) = TYPE_AXIS \<and> unat (mIndex (ch a)) = i
      then V i else mAxes st0 ! i)"
  using assms
proof (induction T arbitrary: st0)
  case Nil
  then show ?case by simp
next
  case (Cons e T)
  obtain a m where e: "e = (a, m)" by (cases e)
  let ?st = "if P a then full_deflection (ch a) st0 else st0"
  have len: "i < length (mAxes ?st)"
    using Cons.prems(2) by (simp add: full_deflection_length)
  have rest: "\<forall>(a, m) \<in> set T. P a \<and> mType (ch a) = TYPE_AXIS \<longrightarrow>
             unat (mIndex (ch a)) < NUM_AXES \<and> mSign (ch a) \<noteq> 0 \<and>
             (if mSign (ch a) < 0 then - 32768 else 32767) = V (unat (mIndex (ch a)))"
    using Cons.prems(1) by simp
  have IH: "mAxes (fold (\<lambda>(a, m) st. if P a then full_deflection (ch a) st else st) T ?st) ! i =
     (if \<exists>(a, m) \<in> set T. P a \<and> mType (ch a) = TYPE_AXIS \<and> unat (mIndex (ch a)) = i
      then V i else mAxes ?st ! i)"
    using rest len by (rule Cons.IH)
  have here: "mAxes ?st ! i =
     (if P a \<and> mType (ch a) = TYPE_AXIS \<and> unat (mIndex (ch a)) = i then V i
      else mAxes st0 ! i)"
    using Cons.prems e by (auto simp: full_deflection_axes)
  show ?case
    unfolding e using IH here by auto
qed

lemma channel_active_axis:
  "mType channel = TYPE_AXIS \<Longrightarrow>
   channel_active axes buttons channel \<longleftrightarrow>
     unat (mIndex channel) < length axes \<and>
     0 < sint (axes ! unat (mIndex channel)) * mSign channel"
  by (simp add: channel_active_def)

lemma channel_active_button:
  "mType channel = TYPE_BUTTON \<Longrightarrow>
   channel_active axes buttons channel \<longleftrightarrow>
     unat (mIndex channel) < NUM_BUTTONS \<and> bit buttons (unat (mIndex channel))"
  by (simp add: channel_active_def)

lemma channel_active_none:
  "mType channel = TYPE_NONE \<Longrightarrow> \<not> channel_active axes buttons channel"
  by (simp add: channel_active_def)

lemma sint_scast_S16_S32: "sint (scast (x :: S16) :: S32) = sint x"
  by (rule sint_up_scast) (simp add: is_up)

lemma roundtrip_active:
  fixes axes :: "S32 list" and ch :: "string \<Rightarrow> InputChannel"
  assumes len: "length axes = NUM_AXES"
    and st: "st = fold (\<lambda>(a, m) st. if channel_active axes buttons (ch a)
                                      then full_deflection (ch a) st else st) T State_init"
    and inT: "(n, msk) \<in> set T"
  shows "channel_active (map scast (mAxes st)) (mButtons st) (ch n) =
         channel_active axes buttons (ch n)"
proof -
  let ?P = "\<lambda>a. channel_active axes buttons (ch a)"
  let ?V = "\<lambda>i. if 0 < sint (axes ! i) then 32767 else (- 32768 :: S16)"
  have lenst: "length (mAxes st) = NUM_AXES"
    unfolding st by (simp add: fold_deflect_length State_init_def)
  have writes: "\<forall>(a, m) \<in> set T. ?P a \<and> mType (ch a) = TYPE_AXIS \<longrightarrow>
             unat (mIndex (ch a)) < NUM_AXES \<and> mSign (ch a) \<noteq> 0 \<and>
             (if mSign (ch a) < 0 then - 32768 else 32767) = ?V (unat (mIndex (ch a)))"
    using len by (auto simp: channel_active_axis zero_less_mult_iff)
  have axes_st: "mAxes st ! i =
     (if \<exists>(a, m) \<in> set T. ?P a \<and> mType (ch a) = TYPE_AXIS \<and> unat (mIndex (ch a)) = i
      then ?V i else 0)" if "i < NUM_AXES" for i
  proof -
    have "i < length (mAxes State_init)"
      using that by (simp add: State_init_def)
    with writes have "mAxes st ! i =
     (if \<exists>(a, m) \<in> set T. ?P a \<and> mType (ch a) = TYPE_AXIS \<and> unat (mIndex (ch a)) = i
      then ?V i else mAxes State_init ! i)"
      unfolding st by (rule fold_deflect_axes)
    then show ?thesis
      using that by (simp add: State_init_def)
  qed
  have buttons_st: "bit (mButtons st) b \<longleftrightarrow>
     (\<exists>(a, m) \<in> set T. ?P a \<and> mType (ch a) = TYPE_BUTTON \<and> unat (mIndex (ch a)) = b \<and>
        b < NUM_BUTTONS)" for b
    unfolding st by (simp add: fold_deflect_buttons State_init_def)
  show ?thesis
  proof (cases "mType (ch n)")
    case TYPE_NONE
    then show ?thesis by (simp add: channel_active_none)
  next
    case TYPE_BUTTON
    let ?b = "unat (mIndex (ch n))"
    show ?thesis
    proof
      assume "channel_active (map scast (mAxes st)) (mButtons st) (ch n)"
      then have "bit (mButtons st) ?b"
        using TYPE_BUTTON by (simp add: channel_active_button)
      then obtain a m where am: "(a, m) \<in> set T" "?P a" "mType (ch a) = TYPE_BUTTON"
        "unat (mIndex (ch a)) = ?b" "?b < NUM_BUTTONS"
        unfolding buttons_st by blast
      from am(2,3,4) have "bit buttons ?b"
        by (simp add: channel_active_button)
      with am(5) show "channel_active axes buttons (ch n)"
        using TYPE_BUTTON by (simp add: channel_active_button)
    next
      assume act: "channel_active axes buttons (ch n)"
      then have b: "?b < NUM_BUTTONS"
        using TYPE_BUTTON by (simp add: channel_active_button)
      have "bit (mButtons st) ?b"
        unfolding buttons_st using inT act TYPE_BUTTON b by blast
      with b show "channel_active (map scast (mAxes st)) (mButtons st) (ch n)"
        using TYPE_BUTTON by (simp add: channel_active_button)
    qed
  next
    case TYPE_AXIS
    let ?i = "unat (mIndex (ch n))"
    let ?s = "mSign (ch n)"
    show ?thesis
    proof
      assume act': "channel_active (map scast (mAxes st)) (mButtons st) (ch n)"
      then have i: "?i < NUM_AXES"
        using TYPE_AXIS lenst by (simp add: channel_active_axis)
      have pos: "0 < sint (mAxes st ! ?i) * ?s"
        using act' TYPE_AXIS lenst i by (simp add: channel_active_axis sint_scast_S16_S32)
      have ex: "\<exists>(a, m) \<in> set T. ?P a \<and> mType (ch a) = TYPE_AXIS \<and> unat (mIndex (ch a)) = ?i"
      proof (rule ccontr)
        assume "\<not> ?thesis"
        then have "mAxes st ! ?i = 0"
          using axes_st [OF i] by simp
        then show False using pos by simp
      qed
      then have val: "mAxes st ! ?i = ?V ?i"
        using axes_st [OF i] by simp
      from ex obtain a m where am: "?P a" "mType (ch a) = TYPE_AXIS" "unat (mIndex (ch a)) = ?i"
        by blast
      then have nz: "sint (axes ! ?i) \<noteq> 0"
        by (auto simp: channel_active_axis)
      have "0 < sint (axes ! ?i) * ?s"
        using pos nz unfolding val by (auto simp: zero_less_mult_iff split: if_splits)
      then show "channel_active axes buttons (ch n)"
        using TYPE_AXIS i len by (simp add: channel_active_axis)
    next
      assume act: "channel_active axes buttons (ch n)"
      then have i: "?i < NUM_AXES" and pos: "0 < sint (axes ! ?i) * ?s"
        using TYPE_AXIS len by (simp_all add: channel_active_axis)
      have "\<exists>(a, m) \<in> set T. ?P a \<and> mType (ch a) = TYPE_AXIS \<and> unat (mIndex (ch a)) = ?i"
        using inT act TYPE_AXIS by blast
      then have val: "mAxes st ! ?i = ?V ?i"
        using axes_st [OF i] by simp
      have "0 < sint (mAxes st ! ?i) * ?s"
        using pos unfolding val by (auto simp: zero_less_mult_iff)
      then show "channel_active (map scast (mAxes st)) (mButtons st) (ch n)"
        using TYPE_AXIS i lenst by (simp add: channel_active_axis sint_scast_S16_S32)
    qed
  qed
qed

text \<open>
  C8: when the \<open>AGENT_CONTROL_*\<close> constants are different single bits, then for every
  mapping of the actions and every device state (six axes, any buttons), the flags
  computed from the state, turned back into a state by \<open>computeStateFromFlags\<close>, give
  the same flags again: the same actions are active. The bits shared between the action
  masks (the fast bits of the two halves of an analog action) do not disturb this.
\<close>

theorem C8_translator_roundtrip:
  assumes "agent_control_bits_ok cb" and "mActionToMask tr = actionMasks cb"
    and "length axes = NUM_AXES"
  shows "let flags = computeFlagsFromState tr axes buttons;
             state = computeStateFromFlags tr flags
         in computeFlagsFromState tr (map scast (mAxes state)) (mButtons state) = flags"
proof -
  let ?ch = "translator_getChannelByAction tr"
  let ?P = "\<lambda>a. channel_active axes buttons (?ch a)"
  let ?T = "actionMasks cb"
  let ?flags = "fold (\<lambda>(a, m) f. if ?P a then f OR m else f) ?T 0"
  let ?st = "fold (\<lambda>(a, m) st. if ?P a then full_deflection (?ch a) st else st) ?T State_init"
  have flags: "computeFlagsFromState tr axes buttons = ?flags"
    by (simp add: computeFlagsFromState_def assms(2))
  have "computeStateFromFlags tr ?flags =
      fold (\<lambda>(a, m) st. if m AND ?flags = m then full_deflection (?ch a) st else st)
        ?T State_init"
    by (simp add: computeStateFromFlags_def assms(2))
  also have "\<dots> = ?st"
  proof (rule fold_cong [OF refl refl])
    fix e assume e: "e \<in> set ?T"
    obtain a m where am: "e = (a, m)" by (cases e)
    have "m AND ?flags = m \<longleftrightarrow> ?P a"
      using assms(1) e unfolding am by (rule actionMasks_test)
    then show "(case e of (a, m) \<Rightarrow> \<lambda>st. if m AND ?flags = m
                  then full_deflection (?ch a) st else st) =
               (case e of (a, m) \<Rightarrow> \<lambda>st. if ?P a then full_deflection (?ch a) st else st)"
      unfolding am by simp
  qed
  finally have st: "computeStateFromFlags tr ?flags = ?st" .
  have "computeFlagsFromState tr (map scast (mAxes ?st)) (mButtons ?st) =
      fold (\<lambda>(a, m) f. if channel_active (map scast (mAxes ?st)) (mButtons ?st) (?ch a)
                         then f OR m else f) ?T 0"
    by (simp add: computeFlagsFromState_def assms(2))
  also have "\<dots> = ?flags"
  proof (rule fold_cong [OF refl refl])
    fix e assume e: "e \<in> set ?T"
    obtain a m where am: "e = (a, m)" by (cases e)
    have "channel_active (map scast (mAxes ?st)) (mButtons ?st) (?ch a) = ?P a"
      using assms(3) refl e unfolding am by (rule roundtrip_active)
    then show "(case e of (a, m) \<Rightarrow> \<lambda>f. if channel_active (map scast (mAxes ?st))
                    (mButtons ?st) (?ch a) then f OR m else f) =
               (case e of (a, m) \<Rightarrow> \<lambda>f. if ?P a then f OR m else f)"
      unfolding am by simp
  qed
  finally show ?thesis
    unfolding Let_def flags st .
qed

lemma getMappedFlags_none:
  assumes "\<forall>(a, m) \<in> set (mActionToMask tr). isNone (translator_getChannelByAction tr a)"
  shows "getMappedFlags tr = 0"
proof -
  have "fold (\<lambda>(action, msk) flags.
             if isNone (translator_getChannelByAction tr action) then flags else flags OR msk)
          T acc = acc"
    if "\<forall>(a, m) \<in> set T. isNone (translator_getChannelByAction tr a)" for T and acc :: U32
    using that by (induction T arbitrary: acc) auto
  then show ?thesis
    using assms by (simp add: getMappedFlags_def)
qed

lemma action_name_types:
  "getActionNameType ''push'' = ACTION_NAME_ANALOG"
  "getActionNameType ''slide'' = ACTION_NAME_ANALOG"
  "getActionNameType ''jump'' = ACTION_NAME_ANALOG"
  "getActionNameType ''turn'' = ACTION_NAME_ANALOG"
  "getActionNameType ''look'' = ACTION_NAME_ANALOG"
  "getActionNameType ''toggle_run'' = ACTION_NAME_BINARY"
  "getActionNameType ''toggle_fly'' = ACTION_NAME_BINARY"
  "getActionNameType ''toggle_flycam'' = ACTION_NAME_BINARY"
  "getActionNameType ''stop'' = ACTION_NAME_BINARY"
  by code_simp+

lemma translator_setMappings_defaults:
  "translator_setMappings agent_defaults tr =
     tr\<lparr>mActionToChannel :=
       [''push+'' \<mapsto> \<lparr> mType = TYPE_AXIS, mSign = 1, mIndex = 1 \<rparr>,
        ''push-'' \<mapsto> \<lparr> mType = TYPE_AXIS, mSign = - 1, mIndex = 1 \<rparr>,
        ''slide+'' \<mapsto> \<lparr> mType = TYPE_AXIS, mSign = 1, mIndex = 0 \<rparr>,
        ''slide-'' \<mapsto> \<lparr> mType = TYPE_AXIS, mSign = - 1, mIndex = 0 \<rparr>,
        ''jump+'' \<mapsto> \<lparr> mType = TYPE_AXIS, mSign = 1, mIndex = 4 \<rparr>,
        ''jump-'' \<mapsto> \<lparr> mType = TYPE_AXIS, mSign = - 1, mIndex = 4 \<rparr>,
        ''turn+'' \<mapsto> \<lparr> mType = TYPE_AXIS, mSign = 1, mIndex = 2 \<rparr>,
        ''turn-'' \<mapsto> \<lparr> mType = TYPE_AXIS, mSign = - 1, mIndex = 2 \<rparr>,
        ''look+'' \<mapsto> \<lparr> mType = TYPE_AXIS, mSign = 1, mIndex = 3 \<rparr>,
        ''look-'' \<mapsto> \<lparr> mType = TYPE_AXIS, mSign = - 1, mIndex = 3 \<rparr>,
        ''toggle_run'' \<mapsto> InputChannel_default\<lparr>mType := TYPE_BUTTON, mIndex := 9\<rparr>,
        ''toggle_fly'' \<mapsto> InputChannel_default\<lparr>mType := TYPE_BUTTON, mIndex := 11\<rparr>,
        ''toggle_flycam'' \<mapsto> InputChannel_default\<lparr>mType := TYPE_BUTTON, mIndex := 10\<rparr>,
        ''stop'' \<mapsto> InputChannel_default\<lparr>mType := TYPE_BUTTON, mIndex := 7\<rparr>]\<rparr>"
  by (simp add: translator_setMappings_def agent_defaults_def translator_updateMap_def
      updateMapInternal_def action_name_types isNone_def InputChannel_default_def
      AXIS_LEFTX_def AXIS_LEFTY_def AXIS_RIGHTX_def AXIS_RIGHTY_def AXIS_TRIGGERLEFT_def
      BUTTON_LEFTSTICK_def BUTTON_LEFTSHOULDER_def BUTTON_RIGHTSHOULDER_def BUTTON_DPAD_UP_def)


lemma default_flycam_channels_explicit:
  "default_flycam_channels =
     [ \<lparr> mType = TYPE_AXIS, mSign = 1, mIndex = 1 \<rparr>,
               \<lparr> mType = TYPE_AXIS, mSign = 1, mIndex = 0 \<rparr>,
               \<lparr> mType = TYPE_AXIS, mSign = 1, mIndex = 5 \<rparr>,
               \<lparr> mType = TYPE_AXIS, mSign = - 1, mIndex = 3 \<rparr>,
               \<lparr> mType = TYPE_AXIS, mSign = 1, mIndex = 2 \<rparr>,
               InputChannel_default\<lparr>mType := TYPE_NONE, mIndex := 0\<rparr> ]"
  by (simp add: default_flycam_channels_def AXIS_LEFTX_def AXIS_LEFTY_def AXIS_RIGHTX_def
      AXIS_RIGHTY_def AXIS_TRIGGERRIGHT_def)

lemma initializeMappingsByDefault_fields:
  "mFlycamChannels (initializeMappingsByDefault mgr) =
     [ \<lparr> mType = TYPE_AXIS, mSign = 1, mIndex = 1 \<rparr>,
               \<lparr> mType = TYPE_AXIS, mSign = 1, mIndex = 0 \<rparr>,
               \<lparr> mType = TYPE_AXIS, mSign = 1, mIndex = 5 \<rparr>,
               \<lparr> mType = TYPE_AXIS, mSign = - 1, mIndex = 3 \<rparr>,
               \<lparr> mType = TYPE_AXIS, mSign = 1, mIndex = 2 \<rparr>,
               InputChannel_default\<lparr>mType := TYPE_NONE, mIndex := 0\<rparr> ]"
  "mActionToChannel (mActionTranslator (initializeMappingsByDefault mgr)) =
     [''push+'' \<mapsto> \<lparr> mType = TYPE_AXIS, mSign = 1, mIndex = 1 \<rparr>,
               ''push-'' \<mapsto> \<lparr> mType = TYPE_AXIS, mSign = - 1, mIndex = 1 \<rparr>,
               ''slide+'' \<mapsto> \<lparr> mType = TYPE_AXIS, mSign = 1, mIndex = 0 \<rparr>,
               ''slide-'' \<mapsto> \<lparr> mType = TYPE_AXIS, mSign = - 1, mIndex = 0 \<rparr>,
               ''jump+'' \<mapsto> \<lparr> mType = TYPE_AXIS, mSign = 1, mIndex = 4 \<rparr>,
               ''jump-'' \<mapsto> \<lparr> mType = TYPE_AXIS, mSign = - 1, mIndex = 4 \<rparr>,
               ''turn+'' \<mapsto> \<lparr> mType = TYPE_AXIS, mSign = 1, mIndex = 2 \<rparr>,
               ''turn-'' \<mapsto> \<lparr> mType = TYPE_AXIS, mSign = - 1, mIndex = 2 \<rparr>,
               ''look+'' \<mapsto> \<lparr> mType = TYPE_AXIS, mSign = 1, mIndex = 3 \<rparr>,
               ''look-'' \<mapsto> \<lparr> mType = TYPE_AXIS, mSign = - 1, mIndex = 3 \<rparr>,
               ''toggle_run'' \<mapsto> InputChannel_default\<lparr>mType := TYPE_BUTTON, mIndex := 9\<rparr>,
               ''toggle_fly'' \<mapsto> InputChannel_default\<lparr>mType := TYPE_BUTTON, mIndex := 11\<rparr>,
               ''toggle_flycam'' \<mapsto> InputChannel_default\<lparr>mType := TYPE_BUTTON, mIndex := 10\<rparr>,
               ''stop'' \<mapsto> InputChannel_default\<lparr>mType := TYPE_BUTTON, mIndex := 7\<rparr>]"
  "mActionToMask (mActionTranslator (initializeMappingsByDefault mgr)) =
     mActionToMask (mActionTranslator mgr)"
  by (simp_all add: initializeMappingsByDefault_def translator_setMappings_defaults
      default_flycam_channels_explicit)

lemma setMappings_preserves:
  assumes "\<And>a c s. f (upd a c s) = f s"
  shows "f (setMappings mappings actions type upd s) = f s"
proof -
  have "f (fold (\<lambda>action s.
                 case pairs action of
                   None \<Rightarrow> upd action channelNone s
                 | Some name \<Rightarrow>
                     (case getChannelByName name of
                        None \<Rightarrow> s
                      | Some channel \<Rightarrow>
                          if isNone channel \<or> mType channel = type
                          then upd action channel s
                          else upd action channelNone s))
           actions s) = f s" for pairs :: "string \<rightharpoonup> string" and channelNone
    by (induction actions arbitrary: s) (auto simp: assms split: option.split)
  then show ?thesis
    by (simp add: setMappings_def Let_def)
qed

lemma translator_updateMap_mask:
  "mActionToMask (translator_updateMap name channel tr) = mActionToMask tr"
  by (simp add: translator_updateMap_def updateMapInternal_def)

lemma restored_mask:
  "mActionToMask (mActionTranslator
     (setFlycamMappings fm (setBinaryMappings bm (setAnalogMappings am mgr)))) =
   mActionToMask (mActionTranslator mgr)"
proof -
  have a: "mActionToMask (mActionTranslator (setAnalogMappings am m)) =
      mActionToMask (mActionTranslator m)" for m
    unfolding setAnalogMappings_def
    by (rule setMappings_preserves) (simp add: translator_updateMap_mask)
  have b: "mActionToMask (mActionTranslator (setBinaryMappings bm m)) =
      mActionToMask (mActionTranslator m)" for m
    unfolding setBinaryMappings_def
    by (rule setMappings_preserves) (simp add: translator_updateMap_mask)
  have c: "mActionToMask (mActionTranslator (setFlycamMappings fm m)) =
      mActionToMask (mActionTranslator m)" for m
    unfolding setFlycamMappings_def
    by (rule setMappings_preserves) (simp add: updateFlycamMap_def Let_def)
  show ?thesis by (simp add: a b c)
qed

text \<open>
  C9: when the three mapping strings are all empty, \<open>loadFromSettings\<close> installs the
  default mappings; otherwise it restores the three strings and, when no action of the
  translator's table is bound to a channel afterwards, installs the default mappings
  too. In both cases the mappings installed are the built-in ones: each analog action on
  its default axis (the + name positive, the - name negative), each binary action on its
  default button, the six flycam channels as \<open>initializeMappingsByDefault\<close> lists them,
  and the table of action masks as it was. The function has no failure result.
\<close>

theorem C9_loadFromSettings_fallback:
  "(let analogMappings = s_loadString SETTING_ANALOGMAPPINGS;
        binaryMappings = s_loadString SETTING_BINARYMAPPINGS;
        flycamMappings = s_loadString SETTING_FLYCAMMAPPINGS;
        restored = setFlycamMappings flycamMappings
                     (setBinaryMappings binaryMappings
                       (setAnalogMappings analogMappings (g_manager g)));
        loaded = g_manager (loadFromSettings s_loadBoolean s_loadString g)
    in (analogMappings = [] \<and> binaryMappings = [] \<and> flycamMappings = [] \<longrightarrow>
          loaded = initializeMappingsByDefault (g_manager g)) \<and>
       (\<not> (analogMappings = [] \<and> binaryMappings = [] \<and> flycamMappings = []) \<and>
        (\<forall>(action, msk) \<in> set (mActionToMask (mActionTranslator restored)).
            isNone (translator_getChannelByAction (mActionTranslator restored) action)) \<longrightarrow>
          loaded = initializeMappingsByDefault restored) \<and>
       ((analogMappings = [] \<and> binaryMappings = [] \<and> flycamMappings = []) \<or>
        (\<forall>(action, msk) \<in> set (mActionToMask (mActionTranslator restored)).
            isNone (translator_getChannelByAction (mActionTranslator restored) action)) \<longrightarrow>
          mActionToChannel (mActionTranslator loaded) =
            [''push+'' \<mapsto> \<lparr> mType = TYPE_AXIS, mSign = 1, mIndex = 1 \<rparr>,
               ''push-'' \<mapsto> \<lparr> mType = TYPE_AXIS, mSign = - 1, mIndex = 1 \<rparr>,
               ''slide+'' \<mapsto> \<lparr> mType = TYPE_AXIS, mSign = 1, mIndex = 0 \<rparr>,
               ''slide-'' \<mapsto> \<lparr> mType = TYPE_AXIS, mSign = - 1, mIndex = 0 \<rparr>,
               ''jump+'' \<mapsto> \<lparr> mType = TYPE_AXIS, mSign = 1, mIndex = 4 \<rparr>,
               ''jump-'' \<mapsto> \<lparr> mType = TYPE_AXIS, mSign = - 1, mIndex = 4 \<rparr>,
               ''turn+'' \<mapsto> \<lparr> mType = TYPE_AXIS, mSign = 1, mIndex = 2 \<rparr>,
               ''turn-'' \<mapsto> \<lparr> mType = TYPE_AXIS, mSign = - 1, mIndex = 2 \<rparr>,
               ''look+'' \<mapsto> \<lparr> mType = TYPE_AXIS, mSign = 1, mIndex = 3 \<rparr>,
               ''look-'' \<mapsto> \<lparr> mType = TYPE_AXIS, mSign = - 1, mIndex = 3 \<rparr>,
               ''toggle_run'' \<mapsto> InputChannel_default\<lparr>mType := TYPE_BUTTON, mIndex := 9\<rparr>,
               ''toggle_fly'' \<mapsto> InputChannel_default\<lparr>mType := TYPE_BUTTON, mIndex := 11\<rparr>,
               ''toggle_flycam'' \<mapsto> InputChannel_default\<lparr>mType := TYPE_BUTTON, mIndex := 10\<rparr>,
               ''stop'' \<mapsto> InputChannel_default\<lparr>mType := TYPE_BUTTON, mIndex := 7\<rparr>] \<and>
          mFlycamChannels loaded =
            [ \<lparr> mType = TYPE_AXIS, mSign = 1, mIndex = 1 \<rparr>,
               \<lparr> mType = TYPE_AXIS, mSign = 1, mIndex = 0 \<rparr>,
               \<lparr> mType = TYPE_AXIS, mSign = 1, mIndex = 5 \<rparr>,
               \<lparr> mType = TYPE_AXIS, mSign = - 1, mIndex = 3 \<rparr>,
               \<lparr> mType = TYPE_AXIS, mSign = 1, mIndex = 2 \<rparr>,
               InputChannel_default\<lparr>mType := TYPE_NONE, mIndex := 0\<rparr> ] \<and>
          mActionToMask (mActionTranslator loaded) =
            mActionToMask (mActionTranslator (g_manager g))))"
proof -
  let ?restored = "setFlycamMappings (s_loadString SETTING_FLYCAMMAPPINGS)
                     (setBinaryMappings (s_loadString SETTING_BINARYMAPPINGS)
                       (setAnalogMappings (s_loadString SETTING_ANALOGMAPPINGS) (g_manager g)))"
  let ?loaded = "g_manager (loadFromSettings s_loadBoolean s_loadString g)"
  let ?empty = "s_loadString SETTING_ANALOGMAPPINGS = [] \<and>
              s_loadString SETTING_BINARYMAPPINGS = [] \<and>
              s_loadString SETTING_FLYCAMMAPPINGS = []"
  let ?none = "\<forall>(action, msk) \<in> set (mActionToMask (mActionTranslator ?restored)).
            isNone (translator_getChannelByAction (mActionTranslator ?restored) action)"
  have 1: "?loaded = initializeMappingsByDefault (g_manager g)" if "?empty"
    using that by (simp add: loadFromSettings_def Let_def)
  have 2: "?loaded = initializeMappingsByDefault ?restored" if ne: "\<not> ?empty" and none: "?none"
  proof -
    have "getMappedFlags (mActionTranslator ?restored) = 0"
      using none by (rule getMappedFlags_none)
    then show ?thesis
      using ne by (auto simp: loadFromSettings_def Let_def)
  qed
  have 3: "mActionToChannel (mActionTranslator ?loaded) =
            [''push+'' \<mapsto> \<lparr> mType = TYPE_AXIS, mSign = 1, mIndex = 1 \<rparr>,
               ''push-'' \<mapsto> \<lparr> mType = TYPE_AXIS, mSign = - 1, mIndex = 1 \<rparr>,
               ''slide+'' \<mapsto> \<lparr> mType = TYPE_AXIS, mSign = 1, mIndex = 0 \<rparr>,
               ''slide-'' \<mapsto> \<lparr> mType = TYPE_AXIS, mSign = - 1, mIndex = 0 \<rparr>,
               ''jump+'' \<mapsto> \<lparr> mType = TYPE_AXIS, mSign = 1, mIndex = 4 \<rparr>,
               ''jump-'' \<mapsto> \<lparr> mType = TYPE_AXIS, mSign = - 1, mIndex = 4 \<rparr>,
               ''turn+'' \<mapsto> \<lparr> mType = TYPE_AXIS, mSign = 1, mIndex = 2 \<rparr>,
               ''turn-'' \<mapsto> \<lparr> mType = TYPE_AXIS, mSign = - 1, mIndex = 2 \<rparr>,
               ''look+'' \<mapsto> \<lparr> mType = TYPE_AXIS, mSign = 1, mIndex = 3 \<rparr>,
               ''look-'' \<mapsto> \<lparr> mType = TYPE_AXIS, mSign = - 1, mIndex = 3 \<rparr>,
               ''toggle_run'' \<mapsto> InputChannel_default\<lparr>mType := TYPE_BUTTON, mIndex := 9\<rparr>,
               ''toggle_fly'' \<mapsto> InputChannel_default\<lparr>mType := TYPE_BUTTON, mIndex := 11\<rparr>,
               ''toggle_flycam'' \<mapsto> InputChannel_default\<lparr>mType := TYPE_BUTTON, mIndex := 10\<rparr>,
               ''stop'' \<mapsto> InputChannel_default\<lparr>mType := TYPE_BUTTON, mIndex := 7\<rparr>] \<and>
          mFlycamChannels ?loaded =
            [ \<lparr> mType = TYPE_AXIS, mSign = 1, mIndex = 1 \<rparr>,
               \<lparr> mType = TYPE_AXIS, mSign = 1, mIndex = 0 \<rparr>,
               \<lparr> mType = TYPE_AXIS, mSign = 1, mIndex = 5 \<rparr>,
               \<lparr> mType = TYPE_AXIS, mSign = - 1, mIndex = 3 \<rparr>,
               \<lparr> mType = TYPE_AXIS, mSign = 1, mIndex = 2 \<rparr>,
               InputChannel_default\<lparr>mType := TYPE_NONE, mIndex := 0\<rparr> ] \<and>
          mActionToMask (mActionTranslator ?loaded) =
            mActionToMask (mActionTranslator (g_manager g))"
    if "?empty \<or> ?none"
  proof (cases "?empty")
    case True
    then have "?loaded = initializeMappingsByDefault (g_manager g)" by (rule 1)
    then show ?thesis
      by (simp only: initializeMappingsByDefault_fields)
  next
    case False
    with that have "?none" by blast
    with False have "?loaded = initializeMappingsByDefault ?restored" by (rule 2)
    then show ?thesis
      by (simp only: initializeMappingsByDefault_fields restored_mask)
  qed
  show ?thesis
    unfolding Let_def using 1 2 3 by blast
qed

theorem C9_loadFromSettings_fallback_witness:
  "example_settings SETTING_ANALOGMAPPINGS \<noteq> [] \<and>
   map (\<lambda>(action, msk). mType (translator_getChannelByAction (mActionTranslator
          (setFlycamMappings (example_settings SETTING_FLYCAMMAPPINGS)
          (setBinaryMappings (example_settings SETTING_BINARYMAPPINGS)
            (setAnalogMappings (example_settings SETTING_ANALOGMAPPINGS)
              (g_manager example_game_control))))) action))
     (mActionToMask (mActionTranslator
        (setFlycamMappings (example_settings SETTING_FLYCAMMAPPINGS)
          (setBinaryMappings (example_settings SETTING_BINARYMAPPINGS)
            (setAnalogMappings (example_settings SETTING_ANALOGMAPPINGS)
              (g_manager example_game_control)))))) = replicate 14 TYPE_NONE \<and>
   g_manager (loadFromSettings (\<lambda>key. False) example_settings example_game_control) =
     initializeMappingsByDefault
       (setFlycamMappings (example_settings SETTING_FLYCAMMAPPINGS)
          (setBinaryMappings (example_settings SETTING_BINARYMAPPINGS)
            (setAnalogMappings (example_settings SETTING_ANALOGMAPPINGS)
              (g_manager example_game_control)))) \<and>
   g_manager (loadFromSettings (\<lambda>key. False) (\<lambda>key. []) example_game_control) =
     initializeMappingsByDefault (g_manager example_game_control) \<and>
   mActionToChannel (mActionTranslator
       (g_manager (loadFromSettings (\<lambda>key. False) example_settings example_game_control))) =
     [''push+'' \<mapsto> \<lparr> mType = TYPE_AXIS, mSign = 1, mIndex = 1 \<rparr>,
        ''push-'' \<mapsto> \<lparr> mType = TYPE_AXIS, mSign = - 1, mIndex = 1 \<rparr>,
        ''slide+'' \<mapsto> \<lparr> mType = TYPE_AXIS, mSign = 1, mIndex = 0 \<rparr>,
        ''slide-'' \<mapsto> \<lparr> mType = TYPE_AXIS, mSign = - 1, mIndex = 0 \<rparr>,
        ''jump+'' \<mapsto> \<lparr> mType = TYPE_AXIS, mSign = 1, mIndex = 4 \<rparr>,
        ''jump-'' \<mapsto> \<lparr> mType = TYPE_AXIS, mSign = - 1, mIndex = 4 \<rparr>,
        ''turn+'' \<mapsto> \<lparr> mType = TYPE_AXIS, mSign = 1, mIndex = 2 \<rparr>,
        ''turn-'' \<mapsto> \<lparr> mType = TYPE_AXIS, mSign = - 1, mIndex = 2 \<rparr>,
        ''look+'' \<mapsto> \<lparr> mType = TYPE_AXIS, mSign = 1, mIndex = 3 \<rparr>,
        ''look-'' \<mapsto> \<lparr> mType = TYPE_AXIS, mSign = - 1, mIndex = 3 \<rparr>,
        ''toggle_run'' \<mapsto> InputChannel_default\<lparr>mType := TYPE_BUTTON, mIndex := 9\<rparr>,
        ''toggle_fly'' \<mapsto> InputChannel_default\<lparr>mType := TYPE_BUTTON, mIndex := 11\<rparr>,
        ''toggle_flycam'' \<mapsto> InputChannel_default\<lparr>mType := TYPE_BUTTON, mIndex := 10\<rparr>,
        ''stop'' \<mapsto> InputChannel_default\<lparr>mType := TYPE_BUTTON, mIndex := 7\<rparr>] \<and>
   mFlycamChannels
       (g_manager (loadFromSettings (\<lambda>key. False) example_settings example_game_control)) =
     [ \<lparr> mType = TYPE_AXIS, mSign = 1, mIndex = 1 \<rparr>,
               \<lparr> mType = TYPE_AXIS, mSign = 1, mIndex = 0 \<rparr>,
               \<lparr> mType = TYPE_AXIS, mSign = 1, mIndex = 5 \<rparr>,
               \<lparr> mType = TYPE_AXIS, mSign = - 1, mIndex = 3 \<rparr>,
               \<lparr> mType = TYPE_AXIS, mSign = 1, mIndex = 2 \<rparr>,
               InputChannel_default\<lparr>mType := TYPE_NONE, mIndex := 0\<rparr> ] \<and>
   translator_getChannelByAction (mActionTranslator
       (g_manager (loadFromSettings (\<lambda>key. False) example_settings example_game_control))) ''push+'' =
     \<lparr> mType = TYPE_AXIS, mSign = 1, mIndex = 1 \<rparr> \<and>
   map (\<lambda>(action, msk). mType (translator_getChannelByAction (mActionTranslator
       (g_manager (loadFromSettings (\<lambda>key. False) example_settings example_game_control))) action))
     (actionMasks example_agent_control_bits) =
     [TYPE_AXIS, TYPE_AXIS, TYPE_AXIS, TYPE_AXIS, TYPE_AXIS, TYPE_AXIS, TYPE_AXIS, TYPE_AXIS,
      TYPE_AXIS, TYPE_AXIS, TYPE_BUTTON, TYPE_BUTTON, TYPE_BUTTON, TYPE_BUTTON]"
proof -
  let ?R = "(setFlycamMappings (example_settings SETTING_FLYCAMMAPPINGS)
          (setBinaryMappings (example_settings SETTING_BINARYMAPPINGS)
            (setAnalogMappings (example_settings SETTING_ANALOGMAPPINGS)
              (g_manager example_game_control))))"
  let ?L = "(g_manager (loadFromSettings (\<lambda>key. False) example_settings example_game_control))"
  have ne: "example_settings SETTING_ANALOGMAPPINGS \<noteq> []"
    by (simp add: example_settings_def)
  have none: "\<forall>(action, msk) \<in> set (mActionToMask (mActionTranslator ?R)).
      isNone (translator_getChannelByAction (mActionTranslator ?R) action)"
    by code_simp
  have types: "map (\<lambda>(action, msk). mType (translator_getChannelByAction (mActionTranslator ?R)
      action)) (mActionToMask (mActionTranslator ?R)) = replicate 14 TYPE_NONE"
    by code_simp
  note inst = C9_loadFromSettings_fallback [of example_settings example_game_control "\<lambda>key. False", unfolded Let_def]
  have loaded: "?L = initializeMappingsByDefault ?R"
    using inst ne none by blast
  have fields: "mActionToChannel (mActionTranslator ?L) =
     [''push+'' \<mapsto> \<lparr> mType = TYPE_AXIS, mSign = 1, mIndex = 1 \<rparr>,
        ''push-'' \<mapsto> \<lparr> mType = TYPE_AXIS, mSign = - 1, mIndex = 1 \<rparr>,
        ''slide+'' \<mapsto> \<lparr> mType = TYPE_AXIS, mSign = 1, mIndex = 0 \<rparr>,
        ''slide-'' \<mapsto> \<lparr> mType = TYPE_AXIS, mSign = - 1, mIndex = 0 \<rparr>,
        ''jump+'' \<mapsto> \<lparr> mType = TYPE_AXIS, mSign = 1, mIndex = 4 \<rparr>,
        ''jump-'' \<mapsto> \<lparr> mType = TYPE_AXIS, mSign = - 1, mIndex = 4 \<rparr>,
        ''turn+'' \<mapsto> \<lparr> mType = TYPE_AXIS, mSign = 1, mIndex = 2 \<rparr>,
        ''turn-'' \<mapsto> \<lparr> mType = TYPE_AXIS, mSign = - 1, mIndex = 2 \<rparr>,
        ''look+'' \<mapsto> \<lparr> mType = TYPE_AXIS, mSign = 1, mIndex = 3 \<rparr>,
        ''look-'' \<mapsto> \<lparr> mType = TYPE_AXIS, mSign = - 1, mIndex = 3 \<rparr>,
        ''toggle_run'' \<mapsto> InputChannel_default\<lparr>mType := TYPE_BUTTON, mIndex := 9\<rparr>,
        ''toggle_fly'' \<mapsto> InputChannel_default\<lparr>mType := TYPE_BUTTON, mIndex := 11\<rparr>,
        ''toggle_flycam'' \<mapsto> InputChannel_default\<lparr>mType := TYPE_BUTTON, mIndex := 10\<rparr>,
        ''stop'' \<mapsto> InputChannel_default\<lparr>mType := TYPE_BUTTON, mIndex := 7\<rparr>] \<and>
     mFlycamChannels ?L =
     [ \<lparr> mType = TYPE_AXIS, mSign = 1, mIndex = 1 \<rparr>,
               \<lparr> mType = TYPE_AXIS, mSign = 1, mIndex = 0 \<rparr>,
               \<lparr> mType = TYPE_AXIS, mSign = 1, mIndex = 5 \<rparr>,
               \<lparr> mType = TYPE_AXIS, mSign = - 1, mIndex = 3 \<rparr>,
               \<lparr> mType = TYPE_AXIS, mSign = 1, mIndex = 2 \<rparr>,
               InputChannel_default\<lparr>mType := TYPE_NONE, mIndex := 0\<rparr> ]"
    using inst none by blast
  have push: "translator_getChannelByAction (mActionTranslator ?L) ''push+'' =
     \<lparr> mType = TYPE_AXIS, mSign = 1, mIndex = 1 \<rparr>"
    using fields by (simp add: translator_getChannelByAction_def)
  have bound: "map (\<lambda>(action, msk). mType (translator_getChannelByAction (mActionTranslator ?L)
      action)) (actionMasks example_agent_control_bits) =
     [TYPE_AXIS, TYPE_AXIS, TYPE_AXIS, TYPE_AXIS, TYPE_AXIS, TYPE_AXIS, TYPE_AXIS, TYPE_AXIS,
      TYPE_AXIS, TYPE_AXIS, TYPE_BUTTON, TYPE_BUTTON, TYPE_BUTTON, TYPE_BUTTON]"
    using fields
    by (simp add: translator_getChannelByAction_def actionMasks_def InputChannel_default_def)
  have empty: "g_manager (loadFromSettings (\<lambda>key. False) (\<lambda>key. []) example_game_control) =
     initializeMappingsByDefault (g_manager example_game_control)"
    using C9_loadFromSettings_fallback [of "\<lambda>key. []" example_game_control "\<lambda>key. False", unfolded Let_def]
    by blast
  show ?thesis
    using ne types loaded empty fields push bound by blast
qed

theorem C8_translator_roundtrip_witness:
  "agent_control_bits_ok example_agent_control_bits \<and>
   mActionToMask (mActionTranslator (LLGameControllerManager_init example_agent_control_bits)) =
     actionMasks example_agent_control_bits \<and>
   length [0, 19999, - 5, 0, 0, 0 :: S32] = NUM_AXES \<and>
   computeFlagsFromState
     (mActionTranslator (LLGameControllerManager_init example_agent_control_bits))
     [0, 19999, - 5, 0, 0, 0] 0x80 = 17921 \<and>
   computeFlagsFromState
     (mActionTranslator (LLGameControllerManager_init example_agent_control_bits))
     (map scast (mAxes (computeStateFromFlags
        (mActionTranslator (LLGameControllerManager_init example_agent_control_bits)) 17921)))
     (mButtons (computeStateFromFlags
        (mActionTranslator (LLGameControllerManager_init example_agent_control_bits)) 17921))
     = 17921"
proof -
  let ?tr = "mActionTranslator (LLGameControllerManager_init example_agent_control_bits)"
  have ok: "agent_control_bits_ok example_agent_control_bits"
    by code_simp
  have tbl: "mActionToMask ?tr = actionMasks example_agent_control_bits"
    by code_simp
  have len: "length [0, 19999, - 5, 0, 0, 0 :: S32] = NUM_AXES"
    by (simp add: NUM_AXES_def)
  have flags: "computeFlagsFromState ?tr [0, 19999, - 5, 0, 0, 0] 0x80 = 17921"
    by code_simp
  show ?thesis
    using ok tbl len flags
      C8_translator_roundtrip [OF ok tbl len, of "0x80", unfolded Let_def flags]
    by blast
qed

end
